theory Spec2Isabelle
  imports Complex_Main
begin

section \<open>Strings\<close>

text \<open>
  A JavaScript string is a sequence of UTF-16 code units, each a number below 65536.
  \<open>js\<close> writes an ASCII literal as such a sequence. A value that may be \<open>undefined\<close> is an
  \<open>option\<close>, with \<open>None\<close> for \<open>undefined\<close>.
\<close>

type_synonym jsstring = "nat list"

definition js :: "string \<Rightarrow> jsstring" where
  "js s = map of_char s"

text \<open>
  \<open>String.prototype.trim\<close> removes the leading and trailing code units of the ECMAScript
  classes WhiteSpace and LineTerminator: tab, line feed, vertical tab, form feed, carriage
  return, space, no-break space, the Ogham space mark, the spaces U+2000 to U+200A, the
  line and paragraph separators, the narrow no-break space, the medium mathematical space,
  the ideographic space and the byte order mark.
\<close>

definition isWhiteSpace :: "nat \<Rightarrow> bool" where
  "isWhiteSpace c =
     (c \<in> set [0x09, 0x0A, 0x0B, 0x0C, 0x0D, 0x20, 0xA0, 0x1680, 0x2028, 0x2029, 0x202F,
                0x205F, 0x3000, 0xFEFF]
      \<or> (0x2000 \<le> c \<and> c \<le> 0x200A))"

definition trim :: "jsstring \<Rightarrow> jsstring" where
  "trim s = rev (dropWhile isWhiteSpace (rev (dropWhile isWhiteSpace s)))"

section \<open>Values returned by \<open>JSON.parse\<close>\<close>

text \<open>
  \<open>JSON.parse\<close> returns \<open>null\<close>, a boolean, a number (a finite double, or an infinity when
  the text overflows), a string, an array or an object; the keys of an object are distinct.
\<close>

datatype js_number = Finite rat | PlusInfinity | MinusInfinity

datatype js_value =
    JNull
  | JBoolean bool
  | JNumber js_number
  | JString jsstring
  | JArray "js_value list"
  | JObject "(jsstring \<times> js_value) list"

text \<open>JavaScript truthiness of such a value.\<close>

fun truthyValue :: "js_value \<Rightarrow> bool" where
  "truthyValue JNull = False"
| "truthyValue (JBoolean b) = b"
| "truthyValue (JNumber n) = (n \<noteq> Finite 0)"
| "truthyValue (JString s) = (s \<noteq> [])"
| "truthyValue (JArray xs) = True"
| "truthyValue (JObject kvs) = True"

section \<open>Data model (src/types.ts)\<close>

datatype AppState =
    INITIAL
  | GENERATING_GUIDE
  | STUDYING
  | GENERATING_KEY_POINTS
  | GENERATING_SUMMARY
  | ASKING_QUESTION
  | EVALUATING_ANSWER
  | SHOWING_FEEDBACK
  | QUIZ_COMPLETE
  | SHOWING_HISTORY
  | ERROR

record EvaluationFeedback =
  evaluation :: jsstring
  explanation :: jsstring

text \<open>An \<open>EvaluationFeedback\<close> as the value \<open>JSON.parse\<close> returns for it.\<close>

definition feedbackValue :: "EvaluationFeedback \<Rightarrow> js_value" where
  "feedbackValue fb =
     JObject [(js ''evaluation'', JString (evaluation fb)),
              (js ''explanation'', JString (explanation fb))]"

text \<open>
  The interface \<open>Source\<close> declares both fields as strings, but the objects built in
  \<open>generateStudyGuide\<close> (lines 29-32) take them from \<open>chunk.web?.uri\<close> and
  \<open>chunk.web?.title\<close>, which may be \<open>undefined\<close>; the fields are therefore optional here.
\<close>

record Source =
  uri :: "jsstring option"
  title :: "jsstring option"

record HistoryItem =
  topic :: jsstring
  guide :: jsstring
  sources :: "Source list"

text \<open>
  The state variable \<open>history\<close> is declared as a list of history items, but the load
  effect (line 60) stores whatever \<open>JSON.parse\<close> returns for the persisted text. A value
  that is not an array is kept as it is.
\<close>

datatype non_array =
    NNull
  | NBoolean bool
  | NNumber js_number
  | NString jsstring
  | NObject "(jsstring \<times> js_value) list"

datatype history_value = Items "HistoryItem list" | NonArray non_array

section \<open>Source post-processing (src/services/geminiService.ts, lines 26-38)\<close>

text \<open>
  A grounding chunk of the API response: its optional \<open>web\<close> member, holding an optional
  \<open>uri\<close> and an optional \<open>title\<close>.
\<close>

type_synonym GroundingChunk = "(jsstring option \<times> jsstring option) option"

text \<open>\<open>chunk.web?.uri\<close> and \<open>chunk.web?.title\<close>.\<close>

definition web_uri :: "GroundingChunk \<Rightarrow> jsstring option" where
  "web_uri chunk = (case chunk of None \<Rightarrow> None | Some w \<Rightarrow> fst w)"

definition web_title :: "GroundingChunk \<Rightarrow> jsstring option" where
  "web_title chunk = (case chunk of None \<Rightarrow> None | Some w \<Rightarrow> snd w)"

text \<open>JavaScript truthiness of a possibly undefined string: defined and not empty.\<close>

definition truthy :: "jsstring option \<Rightarrow> bool" where
  "truthy v = (case v of None \<Rightarrow> False | Some s \<Rightarrow> s \<noteq> [])"

text \<open>Lines 28-33: \<open>groundingChunks.map(...).filter(source => source.uri && source.title)\<close>.\<close>

definition toSource :: "GroundingChunk \<Rightarrow> Source" where
  "toSource chunk = \<lparr>uri = web_uri chunk, title = web_title chunk\<rparr>"

definition filteredSources :: "GroundingChunk list \<Rightarrow> Source list" where
  "filteredSources groundingChunks =
     filter (\<lambda>source. truthy (uri source) \<and> truthy (title source)) (map toSource groundingChunks)"

text \<open>
  A JavaScript \<open>Map\<close> is an association list in insertion order: \<open>set\<close> on a key already
  present replaces the value and leaves the key at its place, \<open>set\<close> on a new key appends
  it. \<open>new Map(entries)\<close> calls \<open>set\<close> for each entry from left to right, and \<open>values()\<close>
  lists the values in key order.
\<close>

fun Map_set :: "('k \<times> 'v) list \<Rightarrow> 'k \<Rightarrow> 'v \<Rightarrow> ('k \<times> 'v) list" where
  "Map_set [] k v = [(k, v)]"
| "Map_set ((k', v') # m) k v =
     (if k' = k then (k', v) # m else (k', v') # Map_set m k v)"

definition new_Map :: "('k \<times> 'v) list \<Rightarrow> ('k \<times> 'v) list" where
  "new_Map entries = foldl (\<lambda>m (k, v). Map_set m k v) [] entries"

definition Map_values :: "('k \<times> 'v) list \<Rightarrow> 'v list" where
  "Map_values m = map snd m"

text \<open>Line 36: \<open>Array.from(new Map(sources.map(item => [item['uri'], item])).values())\<close>.\<close>

definition uniqueSources :: "Source list \<Rightarrow> Source list" where
  "uniqueSources srcs = Map_values (new_Map (map (\<lambda>item. (uri item, item)) srcs))"

definition postProcessSources :: "GroundingChunk list \<Rightarrow> Source list" where
  "postProcessSources groundingChunks = uniqueSources (filteredSources groundingChunks)"

text \<open>
  The deduplication as the specification words it: the first entry of each \<open>uri\<close> is kept,
  in first-seen order.
\<close>

fun spec_dedup_first :: "Source list \<Rightarrow> Source list" where
  "spec_dedup_first [] = []"
| "spec_dedup_first (s # ss) = s # filter (\<lambda>t. uri t \<noteq> uri s) (spec_dedup_first ss)"

text \<open>The keys of a list in the order of their first occurrences.\<close>

fun firstOccurrences :: "'k list \<Rightarrow> 'k list" where
  "firstOccurrences [] = []"
| "firstOccurrences (k # ks) = k # filter (\<lambda>j. j \<noteq> k) (firstOccurrences ks)"

text \<open>The last entry of a list that carries a given \<open>uri\<close>.\<close>

definition lastWithUri :: "Source list \<Rightarrow> jsstring option \<Rightarrow> Source" where
  "lastWithUri srcs u = last (filter (\<lambda>s. uri s = u) srcs)"

section \<open>Content Service wrappers (src/services/geminiService.ts)\<close>

text \<open>
  A thrown JavaScript value: an \<open>Error\<close> object created by the code with its message, a
  \<open>TypeError\<close> raised by the engine (an instance of \<open>Error\<close> whose message text the
  language does not fix), or a value that is not an instance of \<open>Error\<close>.
\<close>

datatype thrown = Error jsstring | TypeError | NonError

text \<open>
  The part of the API response the wrappers read: \<open>response.text\<close> and
  \<open>response.candidates?.[0]?.groundingMetadata?.groundingChunks\<close> (\<open>None\<close> when a link of
  the optional chain is missing).
\<close>

record GenerateContentResponse =
  response_text :: jsstring
  groundingChunks :: "GroundingChunk list option"

text \<open>
  Each wrapper runs its whole body in a \<open>try\<close> block and rethrows a fixed \<open>Error\<close> from
  the \<open>catch\<close>. The argument \<open>api\<close> is the outcome of \<open>getAiClient()\<close> followed by
  \<open>generateContent\<close>: \<open>None\<close> when one of them throws, the response (for the three
  wrappers that read no more than it, its text) otherwise. The prompt text is not
  modelled.
\<close>

definition generateStudyGuide ::
  "GenerateContentResponse option \<Rightarrow> thrown + (jsstring \<times> Source list)" where
  "generateStudyGuide api =
     (case api of
        None \<Rightarrow> Inl (Error (js ''Failed to generate study guide. Please try again.''))
      | Some response \<Rightarrow>
          Inr (response_text response,
               postProcessSources (case groundingChunks response of None \<Rightarrow> [] | Some cs \<Rightarrow> cs)))"

definition generateQuizQuestion :: "jsstring option \<Rightarrow> thrown + jsstring" where
  "generateQuizQuestion api =
     (case api of
        None \<Rightarrow> Inl (Error (js ''Failed to generate a new question. Please try again.''))
      | Some t \<Rightarrow> Inr t)"

text \<open>
  \<open>evaluateAnswer\<close> parses the trimmed response text inside the same \<open>try\<close> block and
  returns whatever value the parser gives (the cast of line 113 checks nothing).
  \<open>JSON_parse\<close> stands for \<open>JSON.parse\<close>: \<open>Inl\<close> when it throws.
\<close>

definition evaluateAnswer ::
  "(jsstring \<Rightarrow> thrown + js_value) \<Rightarrow> jsstring option \<Rightarrow> thrown + js_value" where
  "evaluateAnswer JSON_parse api =
     (case api of
        None \<Rightarrow> Inl (Error (js ''Failed to evaluate the answer. Please try again.''))
      | Some t \<Rightarrow>
          (case JSON_parse (trim t) of
             Inl e \<Rightarrow> Inl (Error (js ''Failed to evaluate the answer. Please try again.''))
           | Inr parsed \<Rightarrow> Inr parsed))"

definition generateKeyPoints :: "jsstring option \<Rightarrow> thrown + jsstring" where
  "generateKeyPoints api =
     (case api of
        None \<Rightarrow> Inl (Error (js ''Failed to generate key points. Please try again.''))
      | Some t \<Rightarrow> Inr t)"

definition generateSummary :: "jsstring option \<Rightarrow> thrown + jsstring" where
  "generateSummary api =
     (case api of
        None \<Rightarrow> Inl (Error (js ''Failed to generate summary. Please try again.''))
      | Some t \<Rightarrow> Inr t)"

section \<open>The App component (state and handlers)\<close>

text \<open>
  The text shown by the error view: a message set by the code, or the message of an error
  raised by the engine.
\<close>

datatype message = Message jsstring | EngineMessage

text \<open>
  The \<open>useState\<close> variables of \<open>App\<close> (lines 28-50). \<open>feedback\<close> holds the value returned
  by \<open>evaluateAnswer\<close>, \<open>JNull\<close> being \<open>null\<close>.
\<close>

record app =
  appState :: AppState
  error :: "message option"
  topic :: jsstring
  studyGuide :: jsstring
  sources :: "Source list"
  keyPoints :: jsstring
  summary :: jsstring
  questionsAsked :: "jsstring list"
  currentQuestion :: jsstring
  userAnswer :: jsstring
  feedback :: js_value
  score :: nat
  history :: history_value
  darkMode :: bool

definition quizLength :: nat where
  "quizLength = 5"

text \<open>The calls a handler can make to the Content Service, with their arguments.\<close>

datatype service_call =
    GenerateStudyGuide jsstring
  | GenerateQuizQuestion jsstring "jsstring list"
  | EvaluateAnswer jsstring jsstring jsstring
  | GenerateKeyPoints jsstring
  | GenerateSummary jsstring

text \<open>
  What running a handler to its end does: \<open>awaiting\<close> is \<open>None\<close> when the handler returns
  without calling the Content Service; otherwise it holds the state rendered while the
  call is in flight together with the call. \<open>final\<close> is the state once the handler has
  returned, when nothing else happened while the call was in flight.

  A handler is a closure of the render that created it. In every handler below the
  argument \<open>c\<close> is the state of that render: reading a state variable reads \<open>c\<close>, also after
  an \<open>await\<close>. A setter does not change \<open>c\<close>; it updates the pending state, and a functional
  update (\<open>setScore(prev => prev + 1)\<close>) reads the pending state. The argument \<open>r\<close> is what
  the awaited service function does: \<open>Inl\<close> the thrown value, \<open>Inr\<close> the returned one.
  For each handler that awaits, the function named \<open>_resume\<close> is the part that runs after
  the \<open>await\<close>, applied to the state \<open>s\<close> that is current when the call settles.

  \<open>String.prototype.toLowerCase\<close> follows the Unicode case mapping, a table that is not
  part of the repository; it is the parameter \<open>toLowerCase\<close>.
\<close>

record outcome =
  awaiting :: "(app \<times> service_call) option"
  final :: app

text \<open>\<open>err instanceof Error ? err.message : 'An unknown error occurred.'\<close>\<close>

definition errMessage :: "thrown \<Rightarrow> message" where
  "errMessage err =
     (case err of
        Error m \<Rightarrow> Message m
      | TypeError \<Rightarrow> EngineMessage
      | NonError \<Rightarrow> Message (js ''An unknown error occurred.''))"

definition resetQuizState :: "app \<Rightarrow> app" where
  "resetQuizState s =
     s\<lparr>questionsAsked := [], currentQuestion := [], userAnswer := [], feedback := JNull, score := 0\<rparr>"

definition resetAllState :: "app \<Rightarrow> app" where
  "resetAllState s =
     (resetQuizState
        (s\<lparr>topic := [], studyGuide := [], sources := [], keyPoints := [], summary := [],
           error := None\<rparr>))
     \<lparr>appState := INITIAL\<rparr>"

text \<open>
  Lines 127-139. On a history that is not an array, \<open>history.some\<close> of line 132 is not a
  function (on \<open>null\<close> the property cannot be read): the engine raises a \<open>TypeError\<close>
  inside the \<open>try\<close> block, after the setters of lines 127-129.
\<close>

definition handleTopicSubmit_resume ::
  "(jsstring \<Rightarrow> jsstring) \<Rightarrow> app \<Rightarrow> thrown + (jsstring \<times> Source list) \<Rightarrow> app \<Rightarrow> app" where
  "handleTopicSubmit_resume toLowerCase c r s =
     (case r of
        Inr (g, srcs) \<Rightarrow>
          let s2 = s\<lparr>studyGuide := g, sources := srcs, appState := STUDYING\<rparr>
          in (case history c of
                Items items \<Rightarrow>
                  if \<not> list_ex (\<lambda>item. toLowerCase (HistoryItem.topic item) = toLowerCase (topic c))
                         items
                  then s2\<lparr>history :=
                           Items (\<lparr>HistoryItem.topic = topic c, guide = g, HistoryItem.sources = srcs\<rparr>
                                  # items)\<rparr>
                  else s2
              | NonArray n \<Rightarrow> s2\<lparr>error := Some (errMessage TypeError), appState := ERROR\<rparr>)
      | Inl err \<Rightarrow> s\<lparr>error := Some (errMessage err), appState := ERROR\<rparr>)"

definition handleTopicSubmit ::
  "(jsstring \<Rightarrow> jsstring) \<Rightarrow> app \<Rightarrow> thrown + (jsstring \<times> Source list) \<Rightarrow> outcome" where
  "handleTopicSubmit toLowerCase c r =
     (if trim (topic c) = [] then \<lparr>awaiting = None, final = c\<rparr>
      else
        let s1 = resetQuizState
                   (c\<lparr>appState := GENERATING_GUIDE, error := None, studyGuide := [],
                      sources := [], keyPoints := [], summary := []\<rparr>)
        in \<lparr>awaiting = Some (s1, GenerateStudyGuide (topic c)),
            final = handleTopicSubmit_resume toLowerCase c r s1\<rparr>)"

text \<open>
  \<open>fetchNextQuestion\<close> is called with the pending state \<open>s\<close> of its caller: the test of
  line 151 and the arguments of line 157 read \<open>questionsAsked\<close> and \<open>studyGuide\<close> of the
  render \<open>c\<close>, while line 159 appends to the list that is current when the call settles.
\<close>

definition fetchNextQuestion_resume :: "thrown + jsstring \<Rightarrow> app \<Rightarrow> app" where
  "fetchNextQuestion_resume r s =
     (case r of
        Inr question \<Rightarrow>
          s\<lparr>currentQuestion := question, questionsAsked := questionsAsked s @ [question]\<rparr>
      | Inl err \<Rightarrow> s\<lparr>error := Some (errMessage err), appState := ERROR\<rparr>)"

definition fetchNextQuestion :: "app \<Rightarrow> thrown + jsstring \<Rightarrow> app \<Rightarrow> outcome" where
  "fetchNextQuestion c r s =
     (let s1 = s\<lparr>userAnswer := [], feedback := JNull\<rparr>
      in if length (questionsAsked c) \<ge> quizLength
         then \<lparr>awaiting = None, final = s1\<lparr>appState := QUIZ_COMPLETE\<rparr>\<rparr>
         else
           let s2 = s1\<lparr>appState := ASKING_QUESTION\<rparr>
           in \<lparr>awaiting = Some (s2, GenerateQuizQuestion (studyGuide c) (questionsAsked c)),
               final = fetchNextQuestion_resume r s2\<rparr>)"

definition handleStartQuiz :: "app \<Rightarrow> thrown + jsstring \<Rightarrow> outcome" where
  "handleStartQuiz c r = fetchNextQuestion c r ((resetQuizState c)\<lparr>appState := ASKING_QUESTION\<rparr>)"

text \<open>The button of the feedback view runs \<open>fetchNextQuestion\<close> itself (line 400).\<close>

definition handleNextQuestion :: "app \<Rightarrow> thrown + jsstring \<Rightarrow> outcome" where
  "handleNextQuestion c r = fetchNextQuestion c r c"

text \<open>
  \<open>evalFeedback.evaluation\<close> (line 175): reading the property of \<open>null\<close> raises a
  \<open>TypeError\<close>; an object gives the value under the key, or \<open>undefined\<close>; every other
  value has no such property.
\<close>

fun readEvaluation :: "js_value \<Rightarrow> thrown + js_value option" where
  "readEvaluation JNull = Inl TypeError"
| "readEvaluation (JObject kvs) = Inr (map_of kvs (js ''evaluation''))"
| "readEvaluation v = Inr None"

definition handleAnswerSubmit_resume :: "thrown + js_value \<Rightarrow> app \<Rightarrow> app" where
  "handleAnswerSubmit_resume r s =
     (case r of
        Inr evalFeedback \<Rightarrow>
          let s2 = s\<lparr>feedback := evalFeedback\<rparr>
          in (case readEvaluation evalFeedback of
                Inl err \<Rightarrow> s2\<lparr>error := Some (errMessage err), appState := ERROR\<rparr>
              | Inr ev \<Rightarrow>
                  let s3 = (if ev = Some (JString (js ''Correct''))
                            then s2\<lparr>score := score s2 + 1\<rparr> else s2)
                  in s3\<lparr>appState := SHOWING_FEEDBACK\<rparr>)
      | Inl err \<Rightarrow> s\<lparr>error := Some (errMessage err), appState := ERROR\<rparr>)"

definition handleAnswerSubmit :: "app \<Rightarrow> thrown + js_value \<Rightarrow> outcome" where
  "handleAnswerSubmit c r =
     (if trim (userAnswer c) = [] then \<lparr>awaiting = None, final = c\<rparr>
      else
        let s1 = c\<lparr>appState := EVALUATING_ANSWER, error := None\<rparr>
        in \<lparr>awaiting = Some (s1, EvaluateAnswer (studyGuide c) (currentQuestion c) (userAnswer c)),
            final = handleAnswerSubmit_resume r s1\<rparr>)"

definition handleGetKeyPoints_resume :: "thrown + jsstring \<Rightarrow> app \<Rightarrow> app" where
  "handleGetKeyPoints_resume r s =
     (case r of
        Inr points \<Rightarrow> s\<lparr>keyPoints := points, appState := STUDYING\<rparr>
      | Inl err \<Rightarrow> s\<lparr>error := Some (errMessage err), appState := ERROR\<rparr>)"

definition handleGetKeyPoints :: "app \<Rightarrow> thrown + jsstring \<Rightarrow> outcome" where
  "handleGetKeyPoints c r =
     (if keyPoints c \<noteq> [] then \<lparr>awaiting = None, final = c\<lparr>keyPoints := []\<rparr>\<rparr>
      else
        let s1 = c\<lparr>summary := [], appState := GENERATING_KEY_POINTS\<rparr>
        in \<lparr>awaiting = Some (s1, GenerateKeyPoints (studyGuide c)),
            final = handleGetKeyPoints_resume r s1\<rparr>)"

definition handleGetSummary_resume :: "thrown + jsstring \<Rightarrow> app \<Rightarrow> app" where
  "handleGetSummary_resume r s =
     (case r of
        Inr result \<Rightarrow> s\<lparr>summary := result, appState := STUDYING\<rparr>
      | Inl err \<Rightarrow> s\<lparr>error := Some (errMessage err), appState := ERROR\<rparr>)"

definition handleGetSummary :: "app \<Rightarrow> thrown + jsstring \<Rightarrow> outcome" where
  "handleGetSummary c r =
     (if summary c \<noteq> [] then \<lparr>awaiting = None, final = c\<lparr>summary := []\<rparr>\<rparr>
      else
        let s1 = c\<lparr>keyPoints := [], appState := GENERATING_SUMMARY\<rparr>
        in \<lparr>awaiting = Some (s1, GenerateSummary (studyGuide c)),
            final = handleGetSummary_resume r s1\<rparr>)"

definition handleSelectHistoryItem :: "app \<Rightarrow> HistoryItem \<Rightarrow> app" where
  "handleSelectHistoryItem c item =
     (resetAllState c)
       \<lparr>topic := HistoryItem.topic item, studyGuide := guide item,
        sources := HistoryItem.sources item, appState := STUDYING\<rparr>"

section \<open>The state machine of the user interface\<close>

text \<open>
  The user's actions, one for each handler that \<open>renderContent\<close> attaches to an element.
  An action whose handler awaits the Content Service carries what the service function
  does for that call.
\<close>

datatype event =
    ChangeTopic jsstring
  | SubmitTopic "thrown + (jsstring \<times> Source list)"
  | SelectHistoryItem nat
  | ViewAllHistory
  | BackToHome
  | ResetAll
  | StartQuiz "thrown + jsstring"
  | GetSummary "thrown + jsstring"
  | GetKeyPoints "thrown + jsstring"
  | ChangeAnswer jsstring
  | SubmitAnswer "thrown + js_value"
  | NextQuestion "thrown + jsstring"
  | ToggleDarkMode

definition returned :: "app \<Rightarrow> outcome" where
  "returned s = \<lparr>awaiting = None, final = s\<rparr>"

text \<open>
  The entries the history views list: those of a list of items; for a value that is not
  an array and whose view renders, \<open>history.length > 0\<close> is false and nothing is listed.
\<close>

definition historyItems :: "history_value \<Rightarrow> HistoryItem list" where
  "historyItems h = (case h of Items items \<Rightarrow> items | NonArray n \<Rightarrow> [])"

text \<open>
  \<open>SelectHistoryItem i\<close> is the button of the \<open>i\<close>-th entry of the rendered list; no button
  exists for an index outside the list, and \<open>dispatch\<close> leaves the state alone there.
\<close>

fun dispatch :: "(jsstring \<Rightarrow> jsstring) \<Rightarrow> app \<Rightarrow> event \<Rightarrow> outcome" where
  "dispatch toLowerCase s (ChangeTopic t) = returned (s\<lparr>topic := t\<rparr>)"
| "dispatch toLowerCase s (SubmitTopic r) = handleTopicSubmit toLowerCase s r"
| "dispatch toLowerCase s (SelectHistoryItem i) =
     (if i < length (historyItems (history s))
      then returned (handleSelectHistoryItem s (historyItems (history s) ! i))
      else returned s)"
| "dispatch toLowerCase s ViewAllHistory = returned (s\<lparr>appState := SHOWING_HISTORY\<rparr>)"
| "dispatch toLowerCase s BackToHome = returned (s\<lparr>appState := INITIAL\<rparr>)"
| "dispatch toLowerCase s ResetAll = returned (resetAllState s)"
| "dispatch toLowerCase s (StartQuiz r) = handleStartQuiz s r"
| "dispatch toLowerCase s (GetSummary r) = handleGetSummary s r"
| "dispatch toLowerCase s (GetKeyPoints r) = handleGetKeyPoints s r"
| "dispatch toLowerCase s (ChangeAnswer a) = returned (s\<lparr>userAnswer := a\<rparr>)"
| "dispatch toLowerCase s (SubmitAnswer r) = handleAnswerSubmit s r"
| "dispatch toLowerCase s (NextQuestion r) = handleNextQuestion s r"
| "dispatch toLowerCase s ToggleDarkMode = returned (s\<lparr>darkMode := \<not> darkMode s\<rparr>)"

text \<open>
  The actions the rendered view offers in a state (\<open>renderContent\<close>, lines 459-474, and
  the views it selects). The loading views offer none; \<open>ASKING_QUESTION\<close> shows the question
  view with its answer form as soon as one question has been asked (line 467), also while
  the next question is being requested; the feedback view is empty when \<open>feedback\<close> is not
  truthy (line 362); the header offers the dark mode button in every state.
\<close>

fun enabled :: "app \<Rightarrow> event \<Rightarrow> bool" where
  "enabled s (ChangeTopic t) = (appState s = INITIAL)"
| "enabled s (SubmitTopic r) = (appState s = INITIAL)"
| "enabled s (SelectHistoryItem i) =
     (appState s = INITIAL \<and> i < length (take 5 (historyItems (history s)))
      \<or> appState s = SHOWING_HISTORY \<and> i < length (historyItems (history s)))"
| "enabled s ViewAllHistory = (appState s = INITIAL \<and> length (historyItems (history s)) > 5)"
| "enabled s BackToHome = (appState s = SHOWING_HISTORY)"
| "enabled s ResetAll = (appState s = STUDYING \<or> appState s = QUIZ_COMPLETE \<or> appState s = ERROR)"
| "enabled s (StartQuiz r) = (appState s = STUDYING \<or> appState s = QUIZ_COMPLETE)"
| "enabled s (GetSummary r) = (appState s = STUDYING)"
| "enabled s (GetKeyPoints r) = (appState s = STUDYING)"
| "enabled s (ChangeAnswer a) = (appState s = ASKING_QUESTION \<and> questionsAsked s \<noteq> [])"
| "enabled s (SubmitAnswer r) = (appState s = ASKING_QUESTION \<and> questionsAsked s \<noteq> [])"
| "enabled s (NextQuestion r) = (appState s = SHOWING_FEEDBACK \<and> truthyValue (feedback s))"
| "enabled s ToggleDarkMode = True"

text \<open>
  The state once the component is mounted over a list of history items: the initial
  values of the \<open>useState\<close> calls, with the history read from storage and the dark mode
  preference of the browser.
\<close>

definition initialState :: "HistoryItem list \<Rightarrow> bool \<Rightarrow> app" where
  "initialState h d =
     \<lparr>appState = INITIAL, error = None, topic = [], studyGuide = [], sources = [],
      keyPoints = [], summary = [], questionsAsked = [], currentQuestion = [],
      userAnswer = [], feedback = JNull, score = 0, history = Items h, darkMode = d\<rparr>"

text \<open>
  Running a list of actions, each handler settling before the next action; \<open>None\<close> when
  one of the actions is not offered in its state.
\<close>

fun run :: "(jsstring \<Rightarrow> jsstring) \<Rightarrow> app \<Rightarrow> event list \<Rightarrow> app option" where
  "run toLowerCase s [] = Some s"
| "run toLowerCase s (e # es) =
     (if enabled s e then run toLowerCase (final (dispatch toLowerCase s e)) es else None)"

subsection \<open>Calls in flight\<close>

text \<open>
  The user can act while a call is in flight, whenever the view rendered for the current
  state offers an action. The component is then its current state together with the
  handlers that are waiting, each with the state \<open>c\<close> of the render that created it and
  the action that started it (which carries what the service will do).
\<close>

record machine =
  current :: app
  inFlight :: "(app \<times> event) list"

text \<open>The part of a handler that runs when its call settles.\<close>

fun resume :: "(jsstring \<Rightarrow> jsstring) \<Rightarrow> app \<Rightarrow> event \<Rightarrow> app \<Rightarrow> app" where
  "resume toLowerCase c (SubmitTopic r) s = handleTopicSubmit_resume toLowerCase c r s"
| "resume toLowerCase c (StartQuiz r) s = fetchNextQuestion_resume r s"
| "resume toLowerCase c (NextQuestion r) s = fetchNextQuestion_resume r s"
| "resume toLowerCase c (SubmitAnswer r) s = handleAnswerSubmit_resume r s"
| "resume toLowerCase c (GetKeyPoints r) s = handleGetKeyPoints_resume r s"
| "resume toLowerCase c (GetSummary r) s = handleGetSummary_resume r s"
| "resume toLowerCase c e s = s"

text \<open>
  A move of the component: the user performs an action that the current view offers (the
  handler runs up to its \<open>await\<close>, or to its end when it makes no call), or the call of
  the \<open>i\<close>-th waiting handler settles.
\<close>

datatype move = Act event | Settle nat

fun mstep :: "(jsstring \<Rightarrow> jsstring) \<Rightarrow> machine \<Rightarrow> move \<Rightarrow> machine option" where
  "mstep toLowerCase m (Act e) =
     (if enabled (current m) e
      then Some (case awaiting (dispatch toLowerCase (current m) e) of
                   None \<Rightarrow> m\<lparr>current := final (dispatch toLowerCase (current m) e)\<rparr>
                 | Some (s1, call) \<Rightarrow>
                     m\<lparr>current := s1, inFlight := inFlight m @ [(current m, e)]\<rparr>)
      else None)"
| "mstep toLowerCase m (Settle i) =
     (if i < length (inFlight m)
      then Some (m\<lparr>current := resume toLowerCase (fst (inFlight m ! i)) (snd (inFlight m ! i))
                                  (current m),
                     inFlight := take i (inFlight m) @ drop (Suc i) (inFlight m)\<rparr>)
      else None)"

fun mrun :: "(jsstring \<Rightarrow> jsstring) \<Rightarrow> machine \<Rightarrow> move list \<Rightarrow> machine option" where
  "mrun toLowerCase m [] = Some m"
| "mrun toLowerCase m (mv # mvs) =
     (case mstep toLowerCase m mv of None \<Rightarrow> None | Some m' \<Rightarrow> mrun toLowerCase m' mvs)"

section \<open>History persistence (App, lines 55-79)\<close>

text \<open>
  The browser storage holds at most one entry under the key \<open>studyBuddyHistory\<close>: \<open>None\<close>
  when \<open>getItem\<close> returns \<open>null\<close>. \<open>JSON_parse\<close> and \<open>JSON_stringify\<close> stand for \<open>JSON.parse\<close>
  and \<open>JSON.stringify\<close>, the first with \<open>Inl\<close> the error it throws on a text that it cannot
  parse. The flags \<open>getItem_throws\<close> and \<open>setItem_throws\<close> say whether the storage access
  throws.
\<close>

text \<open>The body of the \<open>try\<close> block of the load effect (lines 58-61).\<close>

definition loadEffect_try ::
  "bool \<Rightarrow> (jsstring \<Rightarrow> thrown + js_value) \<Rightarrow> jsstring option \<Rightarrow> thrown + js_value option" where
  "loadEffect_try getItem_throws JSON_parse stored =
     (if getItem_throws then Inl (Error (js ''getItem''))
      else
        (case stored of
           None \<Rightarrow> Inr None
         | Some storedHistory \<Rightarrow>
             if storedHistory = [] then Inr None
             else (case JSON_parse storedHistory of
                     Inl e \<Rightarrow> Inl e
                   | Inr v \<Rightarrow> Inr (Some v))))"

text \<open>
  The load effect with its \<open>catch\<close>, which only logs: the result is \<open>Some v\<close> when
  \<open>setHistory(v)\<close> has been called and \<open>None\<close> when the history keeps its initial value.
\<close>

definition loadEffect ::
  "bool \<Rightarrow> (jsstring \<Rightarrow> thrown + js_value) \<Rightarrow> jsstring option \<Rightarrow> js_value option" where
  "loadEffect getItem_throws JSON_parse stored =
     (case loadEffect_try getItem_throws JSON_parse stored of
        Inl e \<Rightarrow> None
      | Inr v \<Rightarrow> v)"

text \<open>The save effect (lines 73-79): the stored entry after it has run for the history \<open>h\<close>.\<close>

definition saveEffect ::
  "bool \<Rightarrow> (history_value \<Rightarrow> jsstring) \<Rightarrow> history_value \<Rightarrow> jsstring option
     \<Rightarrow> jsstring option" where
  "saveEffect setItem_throws JSON_stringify h stored =
     (if setItem_throws then stored else Some (JSON_stringify h))"

text \<open>
  Which parsed values the typed state stands for. An array is a list of history items
  when each element is an object with exactly the keys \<open>topic\<close>, \<open>guide\<close> and \<open>sources\<close>, in
  this order, holding two strings and an array of objects with exactly the string keys
  \<open>uri\<close> and \<open>title\<close>. Any other array is outside this model (\<open>None\<close>).
\<close>

definition decodeSource :: "js_value \<Rightarrow> Source option" where
  "decodeSource v =
     (case v of
        JObject [(k1, JString u), (k2, JString t)] \<Rightarrow>
          if k1 = js ''uri'' \<and> k2 = js ''title'' then Some \<lparr>uri = Some u, title = Some t\<rparr>
          else None
      | _ \<Rightarrow> None)"

definition decodeItem :: "js_value \<Rightarrow> HistoryItem option" where
  "decodeItem v =
     (case v of
        JObject [(k1, JString t), (k2, JString g), (k3, JArray ss)] \<Rightarrow>
          if k1 = js ''topic'' \<and> k2 = js ''guide'' \<and> k3 = js ''sources''
          then map_option
                 (\<lambda>srcs. \<lparr>HistoryItem.topic = t, guide = g, HistoryItem.sources = srcs\<rparr>)
                 (those (map decodeSource ss))
          else None
      | _ \<Rightarrow> None)"

fun asHistory :: "js_value \<Rightarrow> history_value option" where
  "asHistory JNull = Some (NonArray NNull)"
| "asHistory (JBoolean b) = Some (NonArray (NBoolean b))"
| "asHistory (JNumber n) = Some (NonArray (NNumber n))"
| "asHistory (JString s) = Some (NonArray (NString s))"
| "asHistory (JObject kvs) = Some (NonArray (NObject kvs))"
| "asHistory (JArray xs) = map_option Items (those (map decodeItem xs))"

text \<open>
  What rendering the initial view does with the history (lines 250-262). The view reads
  \<open>history.length\<close>: on \<open>null\<close> this raises a \<open>TypeError\<close>; a boolean and a number have no
  such property, and the comparison of \<open>undefined\<close> with 0 is false, so nothing more is
  read; a string that is not empty passes the test and then fails at \<open>.map\<close>, which a string
  does not have; an object without the key \<open>length\<close> behaves as a number does. An object
  with the key \<open>length\<close> is outside this model: the comparison depends on the number
  conversion of the value under that key.
\<close>

datatype render_result = Renders | RenderThrows | NotModelled

fun historyRenders :: "history_value \<Rightarrow> render_result" where
  "historyRenders (Items items) = Renders"
| "historyRenders (NonArray NNull) = RenderThrows"
| "historyRenders (NonArray (NBoolean b)) = Renders"
| "historyRenders (NonArray (NNumber n)) = Renders"
| "historyRenders (NonArray (NString s)) = (if s = [] then Renders else RenderThrows)"
| "historyRenders (NonArray (NObject kvs)) =
     (if map_of kvs (js ''length'') = None then Renders else NotModelled)"

text \<open>
  Mounting. After the first render (empty history) the load effect and then the save
  effect run. When the load effect has set the history, the component renders again: an
  error thrown by that render is caught nowhere and takes the component down
  (\<open>Crashed\<close>, with the storage as the first save effect left it); otherwise the save
  effect, which depends on \<open>history\<close>, runs for the loaded value. \<open>OutsideModel\<close> marks the
  parsed values this model does not follow.
\<close>

datatype mounted =
    Mounted app "jsstring option"
  | Crashed "jsstring option"
  | OutsideModel js_value

definition mount ::
  "bool \<Rightarrow> bool \<Rightarrow> bool \<Rightarrow> (jsstring \<Rightarrow> thrown + js_value)
     \<Rightarrow> (history_value \<Rightarrow> jsstring) \<Rightarrow> bool \<Rightarrow> jsstring option \<Rightarrow> mounted" where
  "mount getItem_throws setItem_throws1 setItem_throws2 JSON_parse JSON_stringify prefersDark stored =
     (let first = saveEffect setItem_throws1 JSON_stringify (Items []) stored
      in case loadEffect getItem_throws JSON_parse stored of
           None \<Rightarrow> Mounted (initialState [] prefersDark) first
         | Some v \<Rightarrow>
             (case asHistory v of
                None \<Rightarrow> OutsideModel v
              | Some h \<Rightarrow>
                  (case historyRenders h of
                     RenderThrows \<Rightarrow> Crashed first
                   | NotModelled \<Rightarrow> OutsideModel v
                   | Renders \<Rightarrow>
                       Mounted ((initialState [] prefersDark)\<lparr>history := h\<rparr>)
                         (saveEffect setItem_throws2 JSON_stringify h first))))"

subsection \<open>Reachable states\<close>

text \<open>
  The component starts in a state that mounting can produce: the initial state over a
  list of history items, or over a value that is not an array and whose view renders.
  From there it makes moves.
\<close>

inductive running :: "(jsstring \<Rightarrow> jsstring) \<Rightarrow> machine \<Rightarrow> bool" where
  start: "running toLowerCase \<lparr>current = initialState h d, inFlight = []\<rparr>"
| start_nonArray:
    "historyRenders (NonArray n) = Renders \<Longrightarrow>
       running toLowerCase \<lparr>current = (initialState [] d)\<lparr>history := NonArray n\<rparr>, inFlight = []\<rparr>"
| move: "running toLowerCase m \<Longrightarrow> mstep toLowerCase m mv = Some m' \<Longrightarrow> running toLowerCase m'"

inductive reachable :: "(jsstring \<Rightarrow> jsstring) \<Rightarrow> app \<Rightarrow> bool" where
  "running toLowerCase m \<Longrightarrow> reachable toLowerCase (current m)"

section \<open>Examples and notions used in the statements\<close>

text \<open>Two study screens: one showing a summary, one showing neither text.\<close>

definition studyingWithSummary :: app where
  "studyingWithSummary =
     (initialState [] True)\<lparr>appState := STUDYING, topic := js ''Cells'', studyGuide := js ''g'',
        summary := js ''S''\<rparr>"

definition studyingPlain :: app where
  "studyingPlain =
     (initialState [] True)\<lparr>appState := STUDYING, topic := js ''Cells'', studyGuide := js ''g''\<rparr>"

text \<open>
  A quiz played to its end, each call settling before the next action: a topic is
  submitted, the quiz is started, five questions are answered, and the button of the
  fifth feedback view is pressed.
\<close>

definition correctFeedback :: js_value where
  "correctFeedback = feedbackValue \<lparr>evaluation = js ''Correct'', explanation = js ''e''\<rparr>"

definition quizRound :: "jsstring \<Rightarrow> event list" where
  "quizRound next =
     [ChangeAnswer (js ''a''), SubmitAnswer (Inr correctFeedback), NextQuestion (Inr next)]"

definition firstQuiz :: "event list" where
  "firstQuiz =
     [ChangeTopic (js ''Cells''), SubmitTopic (Inr (js ''g'', [])), StartQuiz (Inr (js ''q1''))]
     @ quizRound (js ''q2'') @ quizRound (js ''q3'') @ quizRound (js ''q4'')
     @ quizRound (js ''q5'') @ quizRound (js ''q6'')"

definition quizCompleted :: app where
  "quizCompleted =
     \<lparr>appState = QUIZ_COMPLETE, error = None, topic = js ''Cells'', studyGuide = js ''g'',
      sources = [], keyPoints = [], summary = [],
      questionsAsked = [js ''q1'', js ''q2'', js ''q3'', js ''q4'', js ''q5''],
      currentQuestion = js ''q5'', userAnswer = [], feedback = JNull, score = 5,
      history = Items [\<lparr>HistoryItem.topic = js ''Cells'', guide = js ''g'',
                         HistoryItem.sources = []\<rparr>],
      darkMode = True\<rparr>"

text \<open>
  A quiz in which the user answers while the next question is still being requested: after
  the first feedback the button Next Question is pressed and its request fails, but only
  after the user has typed and submitted another answer in the question view, which is
  shown meanwhile. The first twelve moves end with the failure of the question request;
  the thirteenth is the evaluation settling.
\<close>

definition overlappingQuiz :: "move list" where
  "overlappingQuiz =
     [Act (ChangeTopic (js ''Cells'')), Act (SubmitTopic (Inr (js ''g'', []))), Settle 0,
      Act (StartQuiz (Inr (js ''q1''))), Settle 0,
      Act (ChangeAnswer (js ''a'')), Act (SubmitAnswer (Inr correctFeedback)), Settle 0,
      Act (NextQuestion (generateQuizQuestion None)),
      Act (ChangeAnswer (js ''b'')), Act (SubmitAnswer (Inr correctFeedback)),
      Settle 0]"

text \<open>
  A quiz in which two requests for a question are in flight together: with four questions
  asked, Next Question is pressed, an answer is submitted in the question view shown
  meanwhile and its evaluation settles first, and Next Question is pressed again in the
  feedback view; then both requests settle.
\<close>

definition settledRound :: "jsstring \<Rightarrow> move list" where
  "settledRound next =
     [Act (ChangeAnswer (js ''a'')), Act (SubmitAnswer (Inr correctFeedback)), Settle 0,
      Act (NextQuestion (Inr next)), Settle 0]"

definition twoRequestsQuiz :: "move list" where
  "twoRequestsQuiz =
     [Act (ChangeTopic (js ''Cells'')), Act (SubmitTopic (Inr (js ''g'', []))), Settle 0,
      Act (StartQuiz (Inr (js ''q1''))), Settle 0]
     @ settledRound (js ''q2'') @ settledRound (js ''q3'') @ settledRound (js ''q4'')
     @ [Act (ChangeAnswer (js ''a'')), Act (SubmitAnswer (Inr correctFeedback)), Settle 0,
        Act (NextQuestion (Inr (js ''q5''))),
        Act (ChangeAnswer (js ''b'')), Act (SubmitAnswer (Inr correctFeedback)), Settle 1,
        Act (NextQuestion (Inr (js ''q6''))),
        Settle 0, Settle 0]"

text \<open>
  Two submissions of one topic in flight together. A quiz on a first topic leaves an
  evaluation in flight when a question request fails; the user returns to the start and
  submits the topic \<open>Atoms\<close>; the evaluation settles and shows the feedback view, from
  which a further failing question request leads back to the start, where \<open>Atoms\<close> is
  submitted again. The first twenty-one moves end with the first submission settling; the
  twenty-second is the second submission settling.
\<close>

definition twoSubmissions :: "move list" where
  "twoSubmissions =
     [Act (ChangeTopic (js ''Cells'')), Act (SubmitTopic (Inr (js ''g'', []))), Settle 0,
      Act (StartQuiz (Inr (js ''q1''))), Settle 0,
      Act (ChangeAnswer (js ''a'')), Act (SubmitAnswer (Inr correctFeedback)), Settle 0,
      Act (NextQuestion (generateQuizQuestion None)),
      Act (ChangeAnswer (js ''b'')), Act (SubmitAnswer (Inr correctFeedback)),
      Settle 0,
      Act ResetAll,
      Act (ChangeTopic (js ''Atoms'')), Act (SubmitTopic (Inr (js ''first'', []))),
      Settle 0,
      Act (NextQuestion (generateQuizQuestion None)), Settle 1,
      Act ResetAll,
      Act (ChangeTopic (js ''Atoms'')), Act (SubmitTopic (Inr (js ''second'', []))),
      Settle 0]"

definition mounted0 :: machine where
  "mounted0 = \<lparr>current = initialState [] True, inFlight = []\<rparr>"

text \<open>
  A parser that knows one text, and the state mounted over a stored number (a history that
  is not an array), with a topic typed in.
\<close>

definition parseOnly :: "jsstring \<Rightarrow> js_value \<Rightarrow> jsstring \<Rightarrow> thrown + js_value" where
  "parseOnly known v t = (if t = known then Inr v else Inl (Error (js ''SyntaxError'')))"

definition overNumber :: app where
  "overNumber =
     (initialState [] True)\<lparr>history := NonArray (NNumber (Finite 5)), topic := js ''Cells''\<rparr>"

text \<open>The test of line 132: the topic of a history entry equals a topic up to letter case.\<close>

abbreviation topicMatches :: "(jsstring \<Rightarrow> jsstring) \<Rightarrow> jsstring \<Rightarrow> HistoryItem \<Rightarrow> bool" where
  "topicMatches toLowerCase t \<equiv>
     (\<lambda>item. toLowerCase (HistoryItem.topic item) = toLowerCase t)"

text \<open>
  A handler run that made exactly one call to the Content Service, the call \<open>call\<close>, and
  ended in the \<open>ERROR\<close> state carrying the message \<open>msg\<close>.
\<close>

definition failsInto :: "outcome \<Rightarrow> service_call \<Rightarrow> message \<Rightarrow> bool" where
  "failsInto out call msg =
     (map_option snd (awaiting out) = Some call
      \<and> appState (final out) = ERROR \<and> error (final out) = Some msg)"

subsection \<open>Facts about the insertion-ordered map\<close>

lemma new_Map_snoc: "new_Map (es @ [(k, v)]) = Map_set (new_Map es) k v"
  by (simp add: new_Map_def)

lemma keys_Map_set:
  "map fst (Map_set m k v) = (if k \<in> fst ` set m then map fst m else map fst m @ [k])"
proof (induction m)
  case Nil
  show ?case by simp
next
  case (Cons e m)
  obtain k' v' where e: "e = (k', v')" by (cases e)
  show ?case
  proof (cases "k' = k")
    case True
    then show ?thesis by (simp add: e)
  next
    case False
    then show ?thesis using Cons by (simp add: e)
  qed
qed

lemma firstOccurrences_set: "set (firstOccurrences ks) = set ks"
  by (induction ks) auto

lemma firstOccurrences_distinct: "distinct (firstOccurrences ks)"
  by (induction ks) auto

lemma filter_firstOccurrences:
  "filter P (firstOccurrences ks) = firstOccurrences (filter P ks)"
proof (induction ks)
  case Nil
  show ?case by simp
next
  case (Cons a ks)
  show ?case
  proof (cases "P a")
    case True
    have "filter P (filter (\<lambda>j. j \<noteq> a) (firstOccurrences ks))
        = filter (\<lambda>j. j \<noteq> a) (filter P (firstOccurrences ks))"
      by (simp add: conj_commute)
    also have "\<dots> = filter (\<lambda>j. j \<noteq> a) (firstOccurrences (filter P ks))"
      by (simp only: Cons)
    finally show ?thesis using True by simp
  next
    case False
    have "filter P (filter (\<lambda>j. j \<noteq> a) (firstOccurrences ks)) = filter P (firstOccurrences ks)"
      unfolding filter_filter by (rule filter_cong) (use False in auto)
    then show ?thesis using False Cons by simp
  qed
qed

lemma firstOccurrences_snoc:
  "firstOccurrences (ks @ [k]) =
     (if k \<in> set ks then firstOccurrences ks else firstOccurrences ks @ [k])"
proof (induction ks)
  case Nil
  show ?case by simp
next
  case (Cons a ks)
  show ?case
  proof (cases "k = a")
    case True
    have "filter (\<lambda>j. j \<noteq> a) (firstOccurrences (ks @ [a])) = filter (\<lambda>j. j \<noteq> a) (firstOccurrences ks)"
      by (simp add: filter_firstOccurrences)
    with True show ?thesis by simp
  next
    case False
    then show ?thesis using Cons by auto
  qed
qed

lemma keys_new_Map: "map fst (new_Map es) = firstOccurrences (map fst es)"
proof (induction es rule: rev_induct)
  case Nil
  show ?case by (simp add: new_Map_def)
next
  case (snoc e es)
  obtain k v where e: "e = (k, v)" by (cases e)
  have "fst ` set (new_Map es) = set (map fst (new_Map es))" by simp
  also have "\<dots> = fst ` set es" using snoc by (simp add: firstOccurrences_set)
  finally have keys: "fst ` set (new_Map es) = fst ` set es" .
  show ?case
    unfolding e new_Map_snoc
    by (simp add: keys_Map_set keys snoc firstOccurrences_snoc)
qed

lemma map_of_Map_set: "map_of (Map_set m k v) = (map_of m)(k \<mapsto> v)"
  by (induction m) (auto simp: fun_eq_iff)

lemma map_of_new_Map: "map_of (new_Map es) = map_of (rev es)"
proof (induction es rule: rev_induct)
  case Nil
  show ?case by (simp add: new_Map_def)
next
  case (snoc e es)
  obtain k v where e: "e = (k, v)" by (cases e)
  show ?case unfolding e new_Map_snoc by (simp add: map_of_Map_set snoc fun_eq_iff)
qed

lemma distinct_keys_new_Map: "distinct (map fst (new_Map es))"
  by (simp add: keys_new_Map firstOccurrences_distinct)

lemma new_Map_by_lookup:
  "new_Map es = map (\<lambda>k. (k, the (map_of (rev es) k))) (firstOccurrences (map fst es))"
proof -
  have "m = map (\<lambda>k. (k, the (map_of m k))) (map fst m)" if "distinct (map fst m)"
    for m :: "('a \<times> 'b) list"
    using that
  proof (induction m)
    case Nil
    show ?case by simp
  next
    case (Cons e m)
    obtain a b where e: "e = (a, b)" by (cases e)
    from Cons.prems have fresh: "a \<notin> fst ` set m" and d: "distinct (map fst m)"
      by (simp_all add: e)
    have "map (\<lambda>k. (k, the (map_of (e # m) k))) (map fst m)
        = map (\<lambda>k. (k, the (map_of m k))) (map fst m)"
      by (rule map_cong) (use fresh in \<open>auto simp: e\<close>)
    also have "\<dots> = m" using Cons.IH [OF d] by simp
    finally show ?case by (simp add: e)
  qed
  from this [OF distinct_keys_new_Map [of es]]
  show ?thesis by (simp add: keys_new_Map map_of_new_Map)
qed

lemma map_of_rev_keyed:
  "u \<in> f ` set xs \<Longrightarrow> map_of (rev (map (\<lambda>x. (f x, x)) xs)) u = Some (last (filter (\<lambda>x. f x = u) xs))"
proof (induction xs rule: rev_induct)
  case Nil
  then show ?case by simp
next
  case (snoc x xs)
  then show ?case by (cases "f x = u") auto
qed

lemma uniqueSources_char:
  "uniqueSources srcs = map (lastWithUri srcs) (firstOccurrences (map uri srcs))"
proof -
  have keys: "map fst (map (\<lambda>item. (uri item, item)) srcs) = map uri srcs"
    by (simp add: comp_def)
  have "the (map_of (rev (map (\<lambda>item. (uri item, item)) srcs)) u) = lastWithUri srcs u"
    if "u \<in> set (firstOccurrences (map uri srcs))" for u
  proof -
    from that have "u \<in> uri ` set srcs" by (simp add: firstOccurrences_set)
    from map_of_rev_keyed [OF this] show ?thesis by (simp add: lastWithUri_def)
  qed
  then show ?thesis
    unfolding uniqueSources_def Map_values_def new_Map_by_lookup keys
    by (simp add: comp_def)
qed

lemma uri_lastWithUri: "u \<in> uri ` set srcs \<Longrightarrow> uri (lastWithUri srcs u) = u"
proof -
  assume "u \<in> uri ` set srcs"
  then have ne: "filter (\<lambda>s. uri s = u) srcs \<noteq> []"
    by (auto simp: filter_empty_conv)
  from last_in_set [OF ne] show ?thesis by (simp add: lastWithUri_def)
qed

subsection \<open>Facts about strings and trimming\<close>

lemma js_eq_iff: "js a = js b \<longleftrightarrow> a = b"
  unfolding js_def by (simp add: inj_map_eq_map inj_on_def)

lemma js_Nil_iff: "js s = [] \<longleftrightarrow> s = []" "[] = js s \<longleftrightarrow> s = []"
  by (auto simp: js_def)

lemma trim_Nil_iff: "trim s = [] \<longleftrightarrow> list_all isWhiteSpace s"
proof
  assume "trim s = []"
  then have all: "\<forall>x\<in>set (dropWhile isWhiteSpace s). isWhiteSpace x"
    by (simp add: trim_def dropWhile_eq_Nil_conv)
  have "dropWhile isWhiteSpace s = []"
  proof (rule ccontr)
    assume ne: "dropWhile isWhiteSpace s \<noteq> []"
    then have "\<not> isWhiteSpace (hd (dropWhile isWhiteSpace s))" by (rule hd_dropWhile)
    moreover have "hd (dropWhile isWhiteSpace s) \<in> set (dropWhile isWhiteSpace s)"
      using ne by simp
    ultimately show False using all by blast
  qed
  then show "list_all isWhiteSpace s"
    by (simp add: dropWhile_eq_Nil_conv list_all_iff)
next
  assume "list_all isWhiteSpace s"
  then have "dropWhile isWhiteSpace s = []"
    by (simp add: dropWhile_eq_Nil_conv list_all_iff)
  then show "trim s = []" by (simp add: trim_def del: dropWhile_eq_Nil_conv)
qed

lemma trim_examples:
  "trim (js ''Cells'') \<noteq> []" "trim (js ''a'') \<noteq> []" "trim (js ''b'') \<noteq> []"
  "trim (js '' Cells '') \<noteq> []"
  by (simp_all add: trim_def isWhiteSpace_def js_def)

lemma trim_Atoms: "trim (js ''Atoms'') \<noteq> []"
  by (simp add: trim_def isWhiteSpace_def js_def)

lemma isWhiteSpace_members:
  "list_all isWhiteSpace
     [0x09, 0x0A, 0x0B, 0x0C, 0x0D, 0x20, 0xA0, 0x1680, 0x2000, 0x2001, 0x2002, 0x2003, 0x2004,
      0x2005, 0x2006, 0x2007, 0x2008, 0x2009, 0x200A, 0x2028, 0x2029, 0x202F, 0x205F, 0x3000,
      0xFEFF]"
  "\<not> isWhiteSpace 0x85" "\<not> isWhiteSpace 0x180E" "\<not> isWhiteSpace 0x200B"
  "\<not> isWhiteSpace 0x41"
  by (simp_all add: isWhiteSpace_def)

lemma trim_no_break_space: "trim [0xA0, 0x2003, 0xFEFF] = []"
  by (simp add: trim_def isWhiteSpace_def)

subsection \<open>Facts about the two toggles\<close>

lemma handleGetKeyPoints_populated:
  "keyPoints c \<noteq> [] \<Longrightarrow> handleGetKeyPoints c r = \<lparr>awaiting = None, final = c\<lparr>keyPoints := []\<rparr>\<rparr>"
  by (simp add: handleGetKeyPoints_def)

lemma handleGetKeyPoints_empty:
  "keyPoints c = [] \<Longrightarrow>
     handleGetKeyPoints c (Inr points) =
       \<lparr>awaiting = Some (c\<lparr>summary := [], appState := GENERATING_KEY_POINTS\<rparr>,
                         GenerateKeyPoints (studyGuide c)),
        final = c\<lparr>summary := [], keyPoints := points, appState := STUDYING\<rparr>\<rparr>"
  by (cases c) (simp add: handleGetKeyPoints_def handleGetKeyPoints_resume_def Let_def)

lemma handleGetSummary_populated:
  "summary c \<noteq> [] \<Longrightarrow> handleGetSummary c r = \<lparr>awaiting = None, final = c\<lparr>summary := []\<rparr>\<rparr>"
  by (simp add: handleGetSummary_def)

lemma handleGetSummary_empty:
  "summary c = [] \<Longrightarrow>
     handleGetSummary c (Inr result) =
       \<lparr>awaiting = Some (c\<lparr>keyPoints := [], appState := GENERATING_SUMMARY\<rparr>,
                         GenerateSummary (studyGuide c)),
        final = c\<lparr>keyPoints := [], summary := result, appState := STUDYING\<rparr>\<rparr>"
  by (cases c) (simp add: handleGetSummary_def handleGetSummary_resume_def Let_def)

lemma keyPoints_toggle_twice:
  assumes "appState c = STUDYING" "keyPoints c = []" "summary c = []" "points \<noteq> []"
  shows "handleGetKeyPoints (final (handleGetKeyPoints c (Inr points))) r
           = \<lparr>awaiting = None, final = c\<rparr>"
  using assms
  by (cases c) (simp add: handleGetKeyPoints_def handleGetKeyPoints_resume_def Let_def)

lemma summary_toggle_twice:
  assumes "appState c = STUDYING" "keyPoints c = []" "summary c = []" "result \<noteq> []"
  shows "handleGetSummary (final (handleGetSummary c (Inr result))) r
           = \<lparr>awaiting = None, final = c\<rparr>"
  using assms
  by (cases c) (simp add: handleGetSummary_def handleGetSummary_resume_def Let_def)

subsection \<open>Facts about submitting a topic over a list of history items\<close>

lemma handleTopicSubmit_transitions:
  assumes "trim (topic c) \<noteq> []" "history c = Items items"
  shows "\<exists>s1. awaiting (handleTopicSubmit toLowerCase c r) = Some (s1, GenerateStudyGuide (topic c))
            \<and> appState s1 = GENERATING_GUIDE"
    and "appState (final (handleTopicSubmit toLowerCase c r))
           = (case r of Inr v \<Rightarrow> STUDYING | Inl err \<Rightarrow> ERROR)"
  using assms
  by (simp_all add: handleTopicSubmit_def handleTopicSubmit_resume_def Let_def resetQuizState_def
      split: sum.splits prod.splits)

lemma handleTopicSubmit_blank:
  "list_all isWhiteSpace (topic c) \<Longrightarrow>
     handleTopicSubmit toLowerCase c r = \<lparr>awaiting = None, final = c\<rparr>"
  by (simp add: handleTopicSubmit_def trim_Nil_iff)

lemma history_handleTopicSubmit_success:
  "trim (topic c) \<noteq> [] \<Longrightarrow> history c = Items items \<Longrightarrow>
     history (final (handleTopicSubmit toLowerCase c (Inr (g, srcs)))) =
       (if list_ex (topicMatches toLowerCase (topic c)) items then Items items
        else Items (\<lparr>HistoryItem.topic = topic c, guide = g, HistoryItem.sources = srcs\<rparr> # items))"
  by (simp add: handleTopicSubmit_def handleTopicSubmit_resume_def Let_def resetQuizState_def)

lemma history_handleTopicSubmit_failure:
  "history (final (handleTopicSubmit toLowerCase c (Inl err))) = history c"
  by (simp add: handleTopicSubmit_def handleTopicSubmit_resume_def Let_def resetQuizState_def)

lemma second_submission_keeps_first:
  assumes t: "trim (topic c) \<noteq> []"
    and h: "history c = Items items"
    and fresh: "\<not> list_ex (topicMatches toLowerCase (topic c)) items"
    and h2: "history c2 = history (final (handleTopicSubmit toLowerCase c (Inr (g, srcs))))"
    and same: "toLowerCase (topic c2) = toLowerCase (topic c)"
    and t2: "trim (topic c2) \<noteq> []"
  shows "history (final (handleTopicSubmit toLowerCase c2 (Inr (g2, srcs2))))
           = Items (\<lparr>HistoryItem.topic = topic c, guide = g, HistoryItem.sources = srcs\<rparr> # items)"
proof -
  let ?first = "\<lparr>HistoryItem.topic = topic c, guide = g, HistoryItem.sources = srcs\<rparr>"
  have h': "history c2 = Items (?first # items)"
    unfolding h2 history_handleTopicSubmit_success [OF t h] using fresh by simp
  show ?thesis
    unfolding history_handleTopicSubmit_success [OF t2 h'] by (simp add: same)
qed

subsection \<open>Facts about failing calls\<close>

lemma handleTopicSubmit_fails:
  "trim (topic c) \<noteq> [] \<Longrightarrow>
     failsInto (handleTopicSubmit toLowerCase c (Inl err)) (GenerateStudyGuide (topic c))
       (errMessage err)"
  by (simp add: failsInto_def handleTopicSubmit_def handleTopicSubmit_resume_def Let_def)

lemma fetchNextQuestion_fails:
  "length (questionsAsked c) < quizLength \<Longrightarrow>
     failsInto (fetchNextQuestion c (Inl err) s)
       (GenerateQuizQuestion (studyGuide c) (questionsAsked c)) (errMessage err)"
  by (simp add: failsInto_def fetchNextQuestion_def fetchNextQuestion_resume_def Let_def)

lemma handleAnswerSubmit_fails:
  "trim (userAnswer c) \<noteq> [] \<Longrightarrow>
     failsInto (handleAnswerSubmit c (Inl err))
       (EvaluateAnswer (studyGuide c) (currentQuestion c) (userAnswer c)) (errMessage err)"
  by (simp add: failsInto_def handleAnswerSubmit_def handleAnswerSubmit_resume_def Let_def)

lemma handleGetKeyPoints_fails:
  "keyPoints c = [] \<Longrightarrow>
     failsInto (handleGetKeyPoints c (Inl err)) (GenerateKeyPoints (studyGuide c)) (errMessage err)"
  by (simp add: failsInto_def handleGetKeyPoints_def handleGetKeyPoints_resume_def Let_def)

lemma handleGetSummary_fails:
  "summary c = [] \<Longrightarrow>
     failsInto (handleGetSummary c (Inl err)) (GenerateSummary (studyGuide c)) (errMessage err)"
  by (simp add: failsInto_def handleGetSummary_def handleGetSummary_resume_def Let_def)

lemma evaluateAnswer_unparseable:
  "JSON_parse (trim t) = Inl e \<Longrightarrow>
     evaluateAnswer JSON_parse (Some t)
       = Inl (Error (js ''Failed to evaluate the answer. Please try again.''))"
  by (simp add: evaluateAnswer_def)

lemma resetAll_gives_initial:
  "final (dispatch toLowerCase s ResetAll) = (initialState [] (darkMode s))\<lparr>history := history s\<rparr>"
  by (cases s) (simp add: returned_def resetAllState_def resetQuizState_def initialState_def)

subsection \<open>Facts about moves\<close>

lemma resume_final:
  assumes "awaiting (dispatch toLowerCase s e) = Some (s1, call)"
  shows "final (dispatch toLowerCase s e) = resume toLowerCase s e s1"
proof (cases e)
  case (SubmitTopic r)
  with assms show ?thesis by (auto simp: handleTopicSubmit_def Let_def split: if_splits)
next
  case (StartQuiz r)
  with assms show ?thesis
    by (auto simp: handleStartQuiz_def fetchNextQuestion_def Let_def split: if_splits)
next
  case (NextQuestion r)
  with assms show ?thesis
    by (auto simp: handleNextQuestion_def fetchNextQuestion_def Let_def split: if_splits)
next
  case (SubmitAnswer r)
  with assms show ?thesis by (auto simp: handleAnswerSubmit_def Let_def split: if_splits)
next
  case (GetKeyPoints r)
  with assms show ?thesis by (auto simp: handleGetKeyPoints_def Let_def split: if_splits)
next
  case (GetSummary r)
  with assms show ?thesis by (auto simp: handleGetSummary_def Let_def split: if_splits)
qed (use assms in \<open>auto simp: returned_def split: if_splits\<close>)

lemma settled_action_running:
  assumes r: "running toLowerCase \<lparr>current = s, inFlight = []\<rparr>" and en: "enabled s e"
  shows "running toLowerCase \<lparr>current = final (dispatch toLowerCase s e), inFlight = []\<rparr>"
proof (cases "awaiting (dispatch toLowerCase s e)")
  case None
  then have "mstep toLowerCase \<lparr>current = s, inFlight = []\<rparr> (Act e)
      = Some \<lparr>current = final (dispatch toLowerCase s e), inFlight = []\<rparr>"
    using en by simp
  from running.move [OF r this] show ?thesis .
next
  case (Some a)
  obtain s1 call where a: "a = (s1, call)" by (cases a)
  have 1: "mstep toLowerCase \<lparr>current = s, inFlight = []\<rparr> (Act e)
      = Some \<lparr>current = s1, inFlight = [(s, e)]\<rparr>"
    using en Some a by simp
  have 2: "mstep toLowerCase \<lparr>current = s1, inFlight = [(s, e)]\<rparr> (Settle 0)
      = Some \<lparr>current = resume toLowerCase s e s1, inFlight = []\<rparr>"
    by simp
  from running.move [OF running.move [OF r 1] 2]
  show ?thesis using resume_final [of toLowerCase s e s1 call] Some a by simp
qed

lemma running_run:
  "running toLowerCase \<lparr>current = s, inFlight = []\<rparr> \<Longrightarrow> run toLowerCase s es = Some s' \<Longrightarrow>
     running toLowerCase \<lparr>current = s', inFlight = []\<rparr>"
proof (induction es arbitrary: s)
  case Nil
  then show ?case by simp
next
  case (Cons e es)
  from Cons.prems(2) have en: "enabled s e"
    and rest: "run toLowerCase (final (dispatch toLowerCase s e)) es = Some s'"
    by (simp_all split: if_splits)
  from Cons.IH [OF settled_action_running [OF Cons.prems(1) en] rest] show ?case .
qed

lemma reachable_run:
  "run toLowerCase (initialState h d) es = Some s' \<Longrightarrow> reachable toLowerCase s'"
proof -
  assume "run toLowerCase (initialState h d) es = Some s'"
  from running_run [OF running.start this]
  have "running toLowerCase \<lparr>current = s', inFlight = []\<rparr>" .
  from reachable.intros [OF this] show ?thesis by simp
qed

lemma run_append:
  "run toLowerCase s (es @ fs)
     = (case run toLowerCase s es of None \<Rightarrow> None | Some s' \<Rightarrow> run toLowerCase s' fs)"
  by (induction es arbitrary: s) simp_all

lemma running_mrun:
  "running toLowerCase m \<Longrightarrow> mrun toLowerCase m mvs = Some m' \<Longrightarrow> running toLowerCase m'"
proof (induction mvs arbitrary: m)
  case Nil
  then show ?case by simp
next
  case (Cons mv mvs)
  from Cons.prems(2) obtain m1 where 1: "mstep toLowerCase m mv = Some m1"
    and rest: "mrun toLowerCase m1 mvs = Some m'"
    by (auto split: option.splits)
  from Cons.IH [OF running.move [OF Cons.prems(1) 1] rest] show ?case .
qed

subsection \<open>Facts about the quiz\<close>

lemma fetchNextQuestion_complete:
  "length (questionsAsked c) \<ge> quizLength \<Longrightarrow>
     fetchNextQuestion c r s =
       \<lparr>awaiting = None, final = s\<lparr>userAnswer := [], feedback := JNull, appState := QUIZ_COMPLETE\<rparr>\<rparr>"
  by (simp add: fetchNextQuestion_def)

lemma fetchNextQuestion_asks:
  "length (questionsAsked c) < quizLength \<Longrightarrow>
     map_option snd (awaiting (fetchNextQuestion c r s))
       = Some (GenerateQuizQuestion (studyGuide c) (questionsAsked c))
     \<and> questionsAsked (final (fetchNextQuestion c (Inr q) s)) = questionsAsked s @ [q]
     \<and> appState (final (fetchNextQuestion c (Inr q) s)) = ASKING_QUESTION"
  by (simp add: fetchNextQuestion_def fetchNextQuestion_resume_def Let_def)

lemma questionsAsked_dispatch:
  assumes "length (questionsAsked s) \<le> quizLength"
  shows "length (questionsAsked (final (dispatch toLowerCase s e))) \<le> quizLength"
  using assms
proof (cases e)
  case (SubmitTopic r)
  then show ?thesis
    using assms
    by (simp add: handleTopicSubmit_def handleTopicSubmit_resume_def Let_def resetQuizState_def
        split: sum.splits prod.splits history_value.splits)
next
  case (SelectHistoryItem i)
  then show ?thesis
    using assms
    by (simp add: returned_def handleSelectHistoryItem_def resetAllState_def resetQuizState_def)
next
  case ResetAll
  then show ?thesis using assms by (simp add: returned_def resetAllState_def resetQuizState_def)
next
  case (StartQuiz r)
  then show ?thesis
    using assms
    by (simp add: handleStartQuiz_def fetchNextQuestion_def fetchNextQuestion_resume_def Let_def
        resetQuizState_def quizLength_def split: sum.splits)
next
  case (GetSummary r)
  then show ?thesis
    using assms
    by (simp add: handleGetSummary_def handleGetSummary_resume_def Let_def split: sum.splits)
next
  case (GetKeyPoints r)
  then show ?thesis
    using assms
    by (simp add: handleGetKeyPoints_def handleGetKeyPoints_resume_def Let_def split: sum.splits)
next
  case (SubmitAnswer r)
  then show ?thesis
    using assms
    by (simp add: handleAnswerSubmit_def handleAnswerSubmit_resume_def Let_def
        split: sum.splits)
next
  case (NextQuestion r)
  then show ?thesis
    using assms
    by (simp add: handleNextQuestion_def fetchNextQuestion_def fetchNextQuestion_resume_def
        Let_def split: sum.splits)
qed (use assms in \<open>simp_all add: returned_def\<close>)

lemma questionsAsked_bounded_when_settled:
  "length (questionsAsked s) \<le> quizLength \<Longrightarrow> run toLowerCase s es = Some s' \<Longrightarrow>
     length (questionsAsked s') \<le> quizLength"
proof (induction es arbitrary: s)
  case Nil
  then show ?case by simp
next
  case (Cons e es)
  from Cons.prems(2) have rest: "run toLowerCase (final (dispatch toLowerCase s e)) es = Some s'"
    by (simp split: if_splits)
  from Cons.IH [OF questionsAsked_dispatch [OF Cons.prems(1)] rest] show ?case .
qed

lemma questionsAsked_six_with_two_requests:
  "map_option (\<lambda>m. (appState (current m), questionsAsked (current m), inFlight m))
     (mrun toLowerCase mounted0 twoRequestsQuiz)
   = Some (ASKING_QUESTION,
           [js ''q1'', js ''q2'', js ''q3'', js ''q4'', js ''q5'', js ''q6''], [])"
  by (simp add: mounted0_def twoRequestsQuiz_def settledRound_def initialState_def returned_def
      handleTopicSubmit_def handleTopicSubmit_resume_def handleStartQuiz_def
      handleNextQuestion_def fetchNextQuestion_def fetchNextQuestion_resume_def
      handleAnswerSubmit_def handleAnswerSubmit_resume_def resetQuizState_def
      correctFeedback_def feedbackValue_def trim_examples quizLength_def js_Nil_iff Let_def)

subsection \<open>Facts about submissions in flight together\<close>

lemma two_submissions_first_settled:
  assumes "toLowerCase (js ''Cells'') \<noteq> toLowerCase (js ''Atoms'')"
  shows "map_option (\<lambda>m. (history (current m), length (inFlight m)))
     (mrun toLowerCase mounted0 twoSubmissions)
   = Some (Items [\<lparr>HistoryItem.topic = js ''Atoms'', guide = js ''first'', HistoryItem.sources = []\<rparr>,
                  \<lparr>HistoryItem.topic = js ''Cells'', guide = js ''g'', HistoryItem.sources = []\<rparr>],
           1)"
  using assms
  by (simp add: mounted0_def twoSubmissions_def initialState_def returned_def
      handleTopicSubmit_def handleTopicSubmit_resume_def handleStartQuiz_def
      handleNextQuestion_def fetchNextQuestion_def fetchNextQuestion_resume_def
      handleAnswerSubmit_def handleAnswerSubmit_resume_def resetQuizState_def resetAllState_def
      generateQuizQuestion_def errMessage_def correctFeedback_def feedbackValue_def
      trim_examples trim_Atoms quizLength_def js_Nil_iff js_eq_iff Let_def)

lemma two_submissions_second_settled:
  assumes "toLowerCase (js ''Cells'') \<noteq> toLowerCase (js ''Atoms'')"
  shows "map_option (\<lambda>m. (history (current m), inFlight m))
     (mrun toLowerCase mounted0 (twoSubmissions @ [Settle 0]))
   = Some (Items [\<lparr>HistoryItem.topic = js ''Atoms'', guide = js ''second'', HistoryItem.sources = []\<rparr>,
                  \<lparr>HistoryItem.topic = js ''Cells'', guide = js ''g'', HistoryItem.sources = []\<rparr>],
           [])"
  using assms
  by (simp add: mounted0_def twoSubmissions_def initialState_def returned_def
      handleTopicSubmit_def handleTopicSubmit_resume_def handleStartQuiz_def
      handleNextQuestion_def fetchNextQuestion_def fetchNextQuestion_resume_def
      handleAnswerSubmit_def handleAnswerSubmit_resume_def resetQuizState_def resetAllState_def
      generateQuizQuestion_def errMessage_def correctFeedback_def feedbackValue_def
      trim_examples trim_Atoms quizLength_def js_Nil_iff js_eq_iff Let_def)

subsection \<open>Facts about mounting\<close>

lemma loadEffect_nothing:
  "getItem_throws \<or> stored = None \<or> stored = Some [] \<Longrightarrow>
     loadEffect getItem_throws JSON_parse stored = None"
  by (auto simp: loadEffect_def loadEffect_try_def)

lemma loadEffect_unparseable:
  "stored = Some t \<Longrightarrow> JSON_parse t = Inl e \<Longrightarrow>
     loadEffect getItem_throws JSON_parse stored = None"
  by (simp add: loadEffect_def loadEffect_try_def)

lemma loadEffect_parsed:
  "t \<noteq> [] \<Longrightarrow> JSON_parse t = Inr v \<Longrightarrow> loadEffect False JSON_parse (Some t) = Some v"
  by (simp add: loadEffect_def loadEffect_try_def)

lemma mount_nothing_loaded:
  "loadEffect g JSON_parse stored = None \<Longrightarrow>
     mount g w1 w2 JSON_parse JSON_stringify d stored
       = Mounted (initialState [] d) (saveEffect w1 JSON_stringify (Items []) stored)"
  by (simp add: mount_def Let_def)

lemma mount_null:
  "loadEffect g JSON_parse stored = Some JNull \<Longrightarrow>
     mount g w1 w2 JSON_parse JSON_stringify d stored
       = Crashed (saveEffect w1 JSON_stringify (Items []) stored)"
  by (simp add: mount_def Let_def)

lemma mount_non_array:
  "loadEffect g JSON_parse stored = Some v \<Longrightarrow> asHistory v = Some (NonArray n) \<Longrightarrow>
     historyRenders (NonArray n) = Renders \<Longrightarrow>
     mount g w1 w2 JSON_parse JSON_stringify d stored
       = Mounted ((initialState [] d)\<lparr>history := NonArray n\<rparr>)
           (saveEffect w2 JSON_stringify (NonArray n)
              (saveEffect w1 JSON_stringify (Items []) stored))"
  by (simp add: mount_def Let_def)

lemma mount_examples:
  "mount False False False
     (parseOnly (js ''stored'')
        (JArray [JObject [(js ''topic'', JString (js ''Cells'')), (js ''guide'', JString (js ''g'')),
                          (js ''sources'',
                           JArray [JObject [(js ''uri'', JString (js ''u'')),
                                            (js ''title'', JString (js ''t''))]])]]))
     (\<lambda>h. js ''written'') True (Some (js ''stored''))
   = Mounted
       (initialState
          [\<lparr>HistoryItem.topic = js ''Cells'', guide = js ''g'',
            HistoryItem.sources = [\<lparr>uri = Some (js ''u''), title = Some (js ''t'')\<rparr>]\<rparr>] True)
       (Some (js ''written''))"
  "mount False False False (parseOnly (js ''stored'') (JArray [JNull])) (\<lambda>h. js ''written'') True
     (Some (js ''stored''))
   = OutsideModel (JArray [JNull])"
  "mount False False False
     (parseOnly (js ''stored'') (JObject [(js ''length'', JNumber (Finite 3))]))
     (\<lambda>h. js ''written'') True (Some (js ''stored''))
   = OutsideModel (JObject [(js ''length'', JNumber (Finite 3))])"
  "mount False False False (parseOnly (js ''stored'') (JObject [])) (\<lambda>h. js ''written'') True
     (Some (js ''stored''))
   = Mounted ((initialState [] True)\<lparr>history := NonArray (NObject [])\<rparr>) (Some (js ''written''))"
  "mount False True True (parseOnly (js ''stored'') (JArray [])) (\<lambda>h. js ''written'') True
     (Some (js ''{''))
   = Mounted (initialState [] True) (Some (js ''{''))"
  "mount True False False (parseOnly (js ''stored'') (JArray [])) (\<lambda>h. js ''written'') True
     (Some (js ''stored''))
   = Mounted (initialState [] True) (Some (js ''written''))"
  by (simp_all add: mount_def loadEffect_def loadEffect_try_def saveEffect_def parseOnly_def
      decodeItem_def decodeSource_def initialState_def js_eq_iff js_Nil_iff Let_def)

lemma feedback_view_examples:
  "\<not> enabled ((initialState [] True)\<lparr>appState := SHOWING_FEEDBACK, feedback := JNumber (Finite 0)\<rparr>)
       (NextQuestion r)"
  "\<not> enabled ((initialState [] True)\<lparr>appState := SHOWING_FEEDBACK, feedback := JString []\<rparr>)
       (NextQuestion r)"
  "\<not> enabled ((initialState [] True)\<lparr>appState := SHOWING_FEEDBACK, feedback := JBoolean False\<rparr>)
       (NextQuestion r)"
  "enabled ((initialState [] True)\<lparr>appState := SHOWING_FEEDBACK, feedback := JObject []\<rparr>)
       (NextQuestion r)"
  "enabled ((initialState [] True)\<lparr>appState := SHOWING_FEEDBACK, feedback := JNumber PlusInfinity\<rparr>)
       (NextQuestion r)"
  by simp_all

lemma mounted_running:
  assumes "mount g w1 w2 JSON_parse JSON_stringify d stored = Mounted s st"
  shows "running toLowerCase \<lparr>current = s, inFlight = []\<rparr>"
proof (cases "loadEffect g JSON_parse stored")
  case None
  with assms have "s = initialState [] d" by (simp add: mount_def Let_def)
  then show ?thesis by (simp add: running.start)
next
  case (Some v)
  with assms obtain h where h: "asHistory v = Some h" "historyRenders h = Renders"
    and s: "s = (initialState [] d)\<lparr>history := h\<rparr>"
    by (auto simp: mount_def Let_def split: option.splits render_result.splits)
  show ?thesis
  proof (cases h)
    case (Items items)
    then have "s = initialState items d" using s by (simp add: initialState_def)
    then show ?thesis by (simp add: running.start)
  next
    case (NonArray n)
    with h(2) have "historyRenders (NonArray n) = Renders" by simp
    from running.start_nonArray [OF this, of toLowerCase d] show ?thesis
      using s NonArray by simp
  qed
qed

section \<open>Claims\<close>

text \<open>
  C1 (as stated): the source post-processing of \<open>generateStudyGuide\<close> removes every entry
  missing \<open>uri\<close> or \<open>title\<close> and then keeps, for each \<open>uri\<close>, its first occurrence. This
  fails: of two entries with one \<open>uri\<close> and different titles, the code keeps the second.
\<close>

theorem C1_first_occurrence_counterexample:
  "postProcessSources [Some (Some (js ''u''), Some (js ''first'')),
                       Some (Some (js ''u''), Some (js ''second''))]
     \<noteq> spec_dedup_first
          (filteredSources [Some (Some (js ''u''), Some (js ''first'')),
                            Some (Some (js ''u''), Some (js ''second''))])"
  by (simp add: postProcessSources_def uniqueSources_def Map_values_def new_Map_def
      filteredSources_def toSource_def web_uri_def web_title_def truthy_def js_eq_iff js_Nil_iff)

text \<open>
  C1 (amended): the post-processing removes every entry whose \<open>uri\<close> or \<open>title\<close> is missing
  (or empty); the result then holds exactly one entry per remaining \<open>uri\<close>, the uris in the
  order of their first occurrences, and the entry kept for a \<open>uri\<close> is the last remaining
  entry with that \<open>uri\<close>.
\<close>

theorem C1_dedup_last_value_first_position:
  "postProcessSources chunks =
     map (lastWithUri (filteredSources chunks))
         (firstOccurrences (map uri (filteredSources chunks)))
   \<and> distinct (map uri (postProcessSources chunks))
   \<and> filteredSources chunks =
       filter (\<lambda>s. uri s \<noteq> None \<and> uri s \<noteq> Some [] \<and> title s \<noteq> None \<and> title s \<noteq> Some [])
         (map toSource chunks)"
proof -
  let ?fs = "filteredSources chunks"
  have a: "postProcessSources chunks =
     map (lastWithUri ?fs) (firstOccurrences (map uri ?fs))"
    by (simp add: postProcessSources_def uniqueSources_char)
  have "map uri (postProcessSources chunks) = firstOccurrences (map uri ?fs)"
  proof -
    have "map (\<lambda>u. uri (lastWithUri ?fs u)) (firstOccurrences (map uri ?fs))
        = firstOccurrences (map uri ?fs)"
      by (rule map_idI) (simp add: firstOccurrences_set uri_lastWithUri)
    then show ?thesis unfolding a by (simp add: comp_def)
  qed
  then have b: "distinct (map uri (postProcessSources chunks))"
    by (simp add: firstOccurrences_distinct)
  have c: "?fs =
       filter (\<lambda>s. uri s \<noteq> None \<and> uri s \<noteq> Some [] \<and> title s \<noteq> None \<and> title s \<noteq> Some [])
         (map toSource chunks)"
    unfolding filteredSources_def
    by (rule filter_cong) (auto simp: truthy_def split: option.splits)
  from a b c show ?thesis by blast
qed

text \<open>
  C2: a quiz should reach \<open>QUIZ_COMPLETE\<close> exactly when five questions have been asked.
  The first quiz of a topic asks five questions, but the code also reaches \<open>QUIZ_COMPLETE\<close>
  with no question asked: after a finished quiz, the button Try Again runs
  \<open>handleStartQuiz\<close>, whose \<open>fetchNextQuestion\<close> still reads the five questions of the
  finished quiz in its closure, makes no call, and sets \<open>QUIZ_COMPLETE\<close> over the freshly
  cleared quiz data. (The list of questions asked stays within five as long as each
  call settles before the next action, \<open>questionsAsked_bounded_when_settled\<close>; with two
  question requests in flight together it reaches six,
  \<open>questionsAsked_six_with_two_requests\<close>.)
\<close>

theorem C2_try_again_completes_with_no_question:
  "run toLowerCase (initialState [] True) firstQuiz = Some quizCompleted
   \<and> enabled quizCompleted (StartQuiz (Inr (js ''q1'')))
   \<and> dispatch toLowerCase quizCompleted (StartQuiz (Inr (js ''q1''))) =
       \<lparr>awaiting = None,
        final = quizCompleted\<lparr>questionsAsked := [], currentQuestion := [], score := 0\<rparr>\<rparr>
   \<and> reachable toLowerCase
        (quizCompleted\<lparr>questionsAsked := [], currentQuestion := [], score := 0\<rparr>)
   \<and> appState (quizCompleted\<lparr>questionsAsked := [], currentQuestion := [], score := 0\<rparr>)
       = QUIZ_COMPLETE
   \<and> length (questionsAsked quizCompleted) = quizLength
   \<and> questionsAsked (final (dispatch toLowerCase quizCompleted (StartQuiz (Inr (js ''q1''))))) = []"
proof -
  have r: "run toLowerCase (initialState [] True) firstQuiz = Some quizCompleted"
    by (simp add: firstQuiz_def quizRound_def quizCompleted_def initialState_def returned_def
        handleTopicSubmit_def handleTopicSubmit_resume_def handleStartQuiz_def
        handleNextQuestion_def fetchNextQuestion_def fetchNextQuestion_resume_def
        handleAnswerSubmit_def handleAnswerSubmit_resume_def resetQuizState_def
        correctFeedback_def feedbackValue_def trim_examples quizLength_def Let_def)
  have en: "enabled quizCompleted (StartQuiz (Inr (js ''q1'')))"
    by (simp add: quizCompleted_def)
  have d: "dispatch toLowerCase quizCompleted (StartQuiz (Inr (js ''q1''))) =
       \<lparr>awaiting = None,
        final = quizCompleted\<lparr>questionsAsked := [], currentQuestion := [], score := 0\<rparr>\<rparr>"
    by (simp add: quizCompleted_def handleStartQuiz_def fetchNextQuestion_def
        resetQuizState_def quizLength_def Let_def)
  have full: "run toLowerCase (initialState [] True) (firstQuiz @ [StartQuiz (Inr (js ''q1''))])
      = Some (quizCompleted\<lparr>questionsAsked := [], currentQuestion := [], score := 0\<rparr>)"
    using r en d by (simp add: run_append)
  have re: "reachable toLowerCase
      (quizCompleted\<lparr>questionsAsked := [], currentQuestion := [], score := 0\<rparr>)"
    using reachable_run [OF full] .
  have a: "appState (quizCompleted\<lparr>questionsAsked := [], currentQuestion := [], score := 0\<rparr>)
       = QUIZ_COMPLETE"
    by (simp add: quizCompleted_def)
  have l: "length (questionsAsked quizCompleted) = quizLength"
    by (simp add: quizCompleted_def quizLength_def)
  have q: "questionsAsked (final (dispatch toLowerCase quizCompleted (StartQuiz (Inr (js ''q1''))))) = []"
    unfolding d by simp
  from r en d re a l q show ?thesis by blast
qed

text \<open>
  C3: when the evaluation of a submitted answer succeeds, the score grows by exactly one
  if the evaluation of the returned value is the string \<open>Correct\<close>, and is unchanged for
  every other returned value, among them the evaluations \<open>Partially Correct\<close> and
  \<open>Incorrect\<close>; for a returned \<open>EvaluationFeedback\<close> this is the test of its field.
\<close>

theorem C3_score_increments_iff_Correct:
  assumes "trim (userAnswer c) \<noteq> []"
  shows "score (final (handleAnswerSubmit c (Inr v))) =
           (if readEvaluation v = Inr (Some (JString (js ''Correct''))) then score c + 1
            else score c)
         \<and> score (final (handleAnswerSubmit c (Inr (feedbackValue fb)))) =
           (if evaluation fb = js ''Correct'' then score c + 1 else score c)"
proof
  show "score (final (handleAnswerSubmit c (Inr v))) =
           (if readEvaluation v = Inr (Some (JString (js ''Correct''))) then score c + 1
            else score c)"
    using assms
    by (simp add: handleAnswerSubmit_def handleAnswerSubmit_resume_def Let_def
        split: sum.splits)
  show "score (final (handleAnswerSubmit c (Inr (feedbackValue fb)))) =
           (if evaluation fb = js ''Correct'' then score c + 1 else score c)"
    using assms
    by (simp add: handleAnswerSubmit_def handleAnswerSubmit_resume_def Let_def
        feedbackValue_def js_eq_iff)
qed

theorem C3_score_witness:
  "score (final (handleAnswerSubmit ((initialState [] True)\<lparr>userAnswer := js ''a'', score := 2\<rparr>)
            (Inr (feedbackValue \<lparr>evaluation = js ''Correct'', explanation = js ''ok''\<rparr>)))) = 3
   \<and> score (final (handleAnswerSubmit ((initialState [] True)\<lparr>userAnswer := js ''a'', score := 2\<rparr>)
            (Inr (feedbackValue \<lparr>evaluation = js ''Partially Correct'', explanation = js ''ok''\<rparr>)))) = 2
   \<and> score (final (handleAnswerSubmit ((initialState [] True)\<lparr>userAnswer := js ''a'', score := 2\<rparr>)
            (Inr (feedbackValue \<lparr>evaluation = js ''Incorrect'', explanation = js ''ok''\<rparr>)))) = 2
   \<and> score (final (handleAnswerSubmit ((initialState [] True)\<lparr>userAnswer := js ''a'', score := 2\<rparr>)
            (Inr (feedbackValue \<lparr>evaluation = js ''correct'', explanation = js ''ok''\<rparr>)))) = 2
   \<and> score (final (handleAnswerSubmit ((initialState [] True)\<lparr>userAnswer := js ''a'', score := 2\<rparr>)
            (Inr JNull))) = 2"
proof -
  let ?c = "(initialState [] True)\<lparr>userAnswer := js ''a'', score := 2\<rparr>"
  have h: "trim (userAnswer ?c) \<noteq> []"
    by (simp add: trim_examples)
  have s: "score ?c = 2" by simp
  have 1: "score (final (handleAnswerSubmit ?c
        (Inr (feedbackValue \<lparr>evaluation = js ''Correct'', explanation = js ''ok''\<rparr>)))) = 3"
    using C3_score_increments_iff_Correct
      [OF h, of JNull "\<lparr>evaluation = js ''Correct'', explanation = js ''ok''\<rparr>"] s
    by simp
  have 2: "score (final (handleAnswerSubmit ?c
        (Inr (feedbackValue \<lparr>evaluation = js ''Partially Correct'', explanation = js ''ok''\<rparr>)))) = 2"
    using C3_score_increments_iff_Correct
      [OF h, of JNull "\<lparr>evaluation = js ''Partially Correct'', explanation = js ''ok''\<rparr>"] s
    by (simp add: js_eq_iff)
  have 3: "score (final (handleAnswerSubmit ?c
        (Inr (feedbackValue \<lparr>evaluation = js ''Incorrect'', explanation = js ''ok''\<rparr>)))) = 2"
    using C3_score_increments_iff_Correct
      [OF h, of JNull "\<lparr>evaluation = js ''Incorrect'', explanation = js ''ok''\<rparr>"] s
    by (simp add: js_eq_iff)
  have 4: "score (final (handleAnswerSubmit ?c
        (Inr (feedbackValue \<lparr>evaluation = js ''correct'', explanation = js ''ok''\<rparr>)))) = 2"
    using C3_score_increments_iff_Correct
      [OF h, of JNull "\<lparr>evaluation = js ''correct'', explanation = js ''ok''\<rparr>"] s
    by (simp add: js_eq_iff)
  have 5: "score (final (handleAnswerSubmit ?c (Inr JNull))) = 2"
    using C3_score_increments_iff_Correct
      [OF h, of JNull "\<lparr>evaluation = js ''Correct'', explanation = js ''ok''\<rparr>"] s
    by simp
  from 1 2 3 4 5 show ?thesis by blast
qed

text \<open>
  C4: adding to the history should leave one entry per topic, the one of the first
  submission, and never update or remove an entry. When the history is a list of items
  and each call settles before the next action the code does so
  (\<open>history_handleTopicSubmit_success\<close>, \<open>second_submission_keeps_first\<close>). It fails in
  two ways. The load effect installs any parsed value as the history: over a value that is
  not an array, line 132 throws, and a successful generation adds no entry, however often
  the topic is submitted (with the stored text \<open>5\<close>, two successful submissions leave the
  history at the number 5). And line 133 builds the new list from the history of the
  render that created the handler: when two submissions of a topic are in flight together
  (\<open>twoSubmissions\<close>), the second one to settle replaces the entry that the first one had
  added.
\<close>

theorem C4_entry_missing_or_replaced:
  "(history c = NonArray n \<and> trim (topic c) \<noteq> [] \<longrightarrow>
      history (final (handleTopicSubmit toLowerCase c (Inr (g, srcs)))) = NonArray n
      \<and> historyItems (history (final (handleTopicSubmit toLowerCase c (Inr (g, srcs))))) = [])
   \<and> map_option history
        (run toLowerCase ((initialState [] True)\<lparr>history := NonArray (NNumber (Finite 5))\<rparr>)
           [ChangeTopic (js ''Cells''), SubmitTopic (Inr (g, srcs)), ResetAll,
            ChangeTopic (js ''Cells''), SubmitTopic (Inr (g2, srcs2))])
       = Some (NonArray (NNumber (Finite 5)))
   \<and> (toLowerCase (js ''Cells'') \<noteq> toLowerCase (js ''Atoms'') \<longrightarrow>
        map_option (\<lambda>m. (history (current m), length (inFlight m)))
          (mrun toLowerCase mounted0 twoSubmissions)
        = Some (Items [\<lparr>HistoryItem.topic = js ''Atoms'', guide = js ''first'',
                         HistoryItem.sources = []\<rparr>,
                       \<lparr>HistoryItem.topic = js ''Cells'', guide = js ''g'',
                         HistoryItem.sources = []\<rparr>],
                1)
        \<and> map_option (\<lambda>m. (history (current m), inFlight m))
            (mrun toLowerCase mounted0 (twoSubmissions @ [Settle 0]))
          = Some (Items [\<lparr>HistoryItem.topic = js ''Atoms'', guide = js ''second'',
                           HistoryItem.sources = []\<rparr>,
                         \<lparr>HistoryItem.topic = js ''Cells'', guide = js ''g'',
                           HistoryItem.sources = []\<rparr>],
                  []))"
proof (intro conjI impI)
  assume a: "history c = NonArray n \<and> trim (topic c) \<noteq> []"
  then show h: "history (final (handleTopicSubmit toLowerCase c (Inr (g, srcs)))) = NonArray n"
    by (simp add: handleTopicSubmit_def handleTopicSubmit_resume_def Let_def resetQuizState_def)
  show "historyItems (history (final (handleTopicSubmit toLowerCase c (Inr (g, srcs))))) = []"
    unfolding h by (simp add: historyItems_def)
next
  show "map_option history
        (run toLowerCase ((initialState [] True)\<lparr>history := NonArray (NNumber (Finite 5))\<rparr>)
           [ChangeTopic (js ''Cells''), SubmitTopic (Inr (g, srcs)), ResetAll,
            ChangeTopic (js ''Cells''), SubmitTopic (Inr (g2, srcs2))])
       = Some (NonArray (NNumber (Finite 5)))"
    by (simp add: initialState_def returned_def handleTopicSubmit_def handleTopicSubmit_resume_def
        resetAllState_def resetQuizState_def trim_examples Let_def)
next
  assume "toLowerCase (js ''Cells'') \<noteq> toLowerCase (js ''Atoms'')"
  then show "map_option (\<lambda>m. (history (current m), length (inFlight m)))
          (mrun toLowerCase mounted0 twoSubmissions)
        = Some (Items [\<lparr>HistoryItem.topic = js ''Atoms'', guide = js ''first'',
                         HistoryItem.sources = []\<rparr>,
                       \<lparr>HistoryItem.topic = js ''Cells'', guide = js ''g'',
                         HistoryItem.sources = []\<rparr>],
                1)"
    by (rule two_submissions_first_settled)
next
  assume "toLowerCase (js ''Cells'') \<noteq> toLowerCase (js ''Atoms'')"
  then show "map_option (\<lambda>m. (history (current m), inFlight m))
            (mrun toLowerCase mounted0 (twoSubmissions @ [Settle 0]))
          = Some (Items [\<lparr>HistoryItem.topic = js ''Atoms'', guide = js ''second'',
                           HistoryItem.sources = []\<rparr>,
                         \<lparr>HistoryItem.topic = js ''Cells'', guide = js ''g'',
                           HistoryItem.sources = []\<rparr>],
                  [])"
    by (rule two_submissions_second_settled)
qed

theorem C4_entry_missing_or_replaced_witness:
  "history (final (handleTopicSubmit id overNumber (Inr (js ''g'', [])))) = NonArray (NNumber (Finite 5))
   \<and> historyItems (history (final (handleTopicSubmit id overNumber (Inr (js ''g'', []))))) = []
   \<and> map_option (\<lambda>m. (history (current m), length (inFlight m)))
       (mrun id mounted0 twoSubmissions)
     = Some (Items [\<lparr>HistoryItem.topic = js ''Atoms'', guide = js ''first'',
                      HistoryItem.sources = []\<rparr>,
                    \<lparr>HistoryItem.topic = js ''Cells'', guide = js ''g'',
                      HistoryItem.sources = []\<rparr>],
             1)
   \<and> map_option (\<lambda>m. (history (current m), inFlight m))
       (mrun id mounted0 (twoSubmissions @ [Settle 0]))
     = Some (Items [\<lparr>HistoryItem.topic = js ''Atoms'', guide = js ''second'',
                      HistoryItem.sources = []\<rparr>,
                    \<lparr>HistoryItem.topic = js ''Cells'', guide = js ''g'',
                      HistoryItem.sources = []\<rparr>],
             [])"
proof -
  have h: "history overNumber = NonArray (NNumber (Finite 5)) \<and> trim (topic overNumber) \<noteq> []"
    by (simp add: overNumber_def trim_examples)
  have d: "id (js ''Cells'') \<noteq> id (js ''Atoms'')"
    by (simp add: js_eq_iff)
  show ?thesis
    using C4_entry_missing_or_replaced
      [of overNumber "NNumber (Finite 5)" id "js ''g''" "[]" "js ''g''" "[]"] h d
    by blast
qed

text \<open>
  C5 (as stated): from every \<open>STUDYING\<close> state, toggling the key points twice gives back the
  original display, the second toggle making no call. This fails when the summary is shown
  at the start (the first toggle hides it and nothing brings it back), and when the service
  returns the empty text (the second toggle then calls the service again).
\<close>

theorem C5_toggle_twice_counterexample:
  "summary (final (handleGetKeyPoints (final (handleGetKeyPoints studyingWithSummary (Inr (js ''K''))))
                     (Inr (js ''K''))))
     \<noteq> summary studyingWithSummary
   \<and> awaiting (handleGetKeyPoints (final (handleGetKeyPoints studyingPlain (Inr [])))
                 (Inr (js ''K'')))
     \<noteq> None"
  by (simp add: handleGetKeyPoints_def handleGetKeyPoints_resume_def studyingWithSummary_def
      studyingPlain_def initialState_def Let_def js_Nil_iff)

text \<open>
  C5 (amended): from a \<open>STUDYING\<close> state that shows neither the key points nor the summary,
  toggling the key points (or the summary) twice, the service returning a text that is not
  empty, gives back the original state, and the second toggle makes no call. In any state,
  a handler whose text is populated clears it and returns without a call; otherwise it
  clears the other text, enters its generating state, calls the service and, on success,
  stores the text and returns to \<open>STUDYING\<close>.
\<close>

theorem C5_toggle_twice_restores_plain_display:
  "(appState c = STUDYING \<and> keyPoints c = [] \<and> summary c = [] \<and> t \<noteq> [] \<longrightarrow>
      handleGetKeyPoints (final (handleGetKeyPoints c (Inr t))) r = \<lparr>awaiting = None, final = c\<rparr>
      \<and> handleGetSummary (final (handleGetSummary c (Inr t))) r = \<lparr>awaiting = None, final = c\<rparr>)
   \<and> (keyPoints c \<noteq> [] \<longrightarrow>
        handleGetKeyPoints c r = \<lparr>awaiting = None, final = c\<lparr>keyPoints := []\<rparr>\<rparr>)
   \<and> (keyPoints c = [] \<longrightarrow>
        handleGetKeyPoints c (Inr t) =
          \<lparr>awaiting = Some (c\<lparr>summary := [], appState := GENERATING_KEY_POINTS\<rparr>,
                            GenerateKeyPoints (studyGuide c)),
           final = c\<lparr>summary := [], keyPoints := t, appState := STUDYING\<rparr>\<rparr>)
   \<and> (summary c \<noteq> [] \<longrightarrow>
        handleGetSummary c r = \<lparr>awaiting = None, final = c\<lparr>summary := []\<rparr>\<rparr>)
   \<and> (summary c = [] \<longrightarrow>
        handleGetSummary c (Inr t) =
          \<lparr>awaiting = Some (c\<lparr>keyPoints := [], appState := GENERATING_SUMMARY\<rparr>,
                            GenerateSummary (studyGuide c)),
           final = c\<lparr>keyPoints := [], summary := t, appState := STUDYING\<rparr>\<rparr>)"
  using keyPoints_toggle_twice [of c t r] summary_toggle_twice [of c t r]
    handleGetKeyPoints_populated [of c r] handleGetKeyPoints_empty [of c t]
    handleGetSummary_populated [of c r] handleGetSummary_empty [of c t]
  by blast

theorem C5_toggle_twice_witness:
  "handleGetKeyPoints (final (handleGetKeyPoints studyingPlain (Inr (js ''K'')))) (Inr (js ''K''))
     = \<lparr>awaiting = None, final = studyingPlain\<rparr>
   \<and> handleGetSummary (final (handleGetSummary studyingPlain (Inr (js ''K'')))) (Inr (js ''K''))
     = \<lparr>awaiting = None, final = studyingPlain\<rparr>
   \<and> handleGetSummary studyingWithSummary (Inr (js ''K''))
     = \<lparr>awaiting = None, final = studyingWithSummary\<lparr>summary := []\<rparr>\<rparr>
   \<and> handleGetKeyPoints (studyingPlain\<lparr>keyPoints := js ''P''\<rparr>) (Inr (js ''K''))
     = \<lparr>awaiting = None, final = studyingPlain\<lparr>keyPoints := []\<rparr>\<rparr>
   \<and> final (handleGetKeyPoints studyingWithSummary (Inr (js ''K'')))
     = studyingWithSummary\<lparr>summary := [], keyPoints := js ''K'', appState := STUDYING\<rparr>"
proof -
  have p: "appState studyingPlain = STUDYING \<and> keyPoints studyingPlain = []
      \<and> summary studyingPlain = [] \<and> js ''K'' \<noteq> []"
    by (simp add: studyingPlain_def initialState_def js_Nil_iff)
  have q: "summary studyingWithSummary \<noteq> []" "keyPoints studyingWithSummary = []"
    by (simp_all add: studyingWithSummary_def initialState_def js_Nil_iff)
  have u: "keyPoints (studyingPlain\<lparr>keyPoints := js ''P''\<rparr>) \<noteq> []" by (simp add: js_Nil_iff)
  have a: "handleGetKeyPoints (final (handleGetKeyPoints studyingPlain (Inr (js ''K'')))) (Inr (js ''K''))
             = \<lparr>awaiting = None, final = studyingPlain\<rparr>
           \<and> handleGetSummary (final (handleGetSummary studyingPlain (Inr (js ''K'')))) (Inr (js ''K''))
             = \<lparr>awaiting = None, final = studyingPlain\<rparr>"
    using C5_toggle_twice_restores_plain_display [of studyingPlain "js ''K''" "Inr (js ''K'')"] p
    by blast
  have b: "handleGetSummary studyingWithSummary (Inr (js ''K''))
             = \<lparr>awaiting = None, final = studyingWithSummary\<lparr>summary := []\<rparr>\<rparr>"
    using C5_toggle_twice_restores_plain_display [of studyingWithSummary "js ''K''" "Inr (js ''K'')"] q
    by blast
  have d: "handleGetKeyPoints (studyingPlain\<lparr>keyPoints := js ''P''\<rparr>) (Inr (js ''K''))
             = \<lparr>awaiting = None, final = studyingPlain\<lparr>keyPoints := []\<rparr>\<rparr>"
    using C5_toggle_twice_restores_plain_display
      [of "studyingPlain\<lparr>keyPoints := js ''P''\<rparr>" "js ''K''" "Inr (js ''K'')"] u
    by simp
  have "handleGetKeyPoints studyingWithSummary (Inr (js ''K'')) =
          \<lparr>awaiting = Some (studyingWithSummary\<lparr>summary := [], appState := GENERATING_KEY_POINTS\<rparr>,
                            GenerateKeyPoints (studyGuide studyingWithSummary)),
           final = studyingWithSummary\<lparr>summary := [], keyPoints := js ''K'', appState := STUDYING\<rparr>\<rparr>"
    using C5_toggle_twice_restores_plain_display [of studyingWithSummary "js ''K''" "Inr (js ''K'')"] q
    by blast
  then have e: "final (handleGetKeyPoints studyingWithSummary (Inr (js ''K'')))
     = studyingWithSummary\<lparr>summary := [], keyPoints := js ''K'', appState := STUDYING\<rparr>"
    by simp
  from a b d e show ?thesis by blast
qed

text \<open>
  C6: submitting a topic that is not empty after trimming should put the machine in
  \<open>GENERATING_GUIDE\<close> and then, when the service succeeds, in \<open>STUDYING\<close>. Over a list of
  history items the code does so, and a topic of white space only changes nothing
  (\<open>handleTopicSubmit_transitions\<close>, \<open>handleTopicSubmit_blank\<close>). Over a history that is
  not an array, which the load effect installs unchecked, the successful generation ends
  in \<open>ERROR\<close>: line 132 throws after line 129 has set \<open>STUDYING\<close>. Such a state, with the
  topic typed in, is reachable after the stored text \<open>5\<close>.
\<close>

theorem C6_successful_generation_ends_in_ERROR:
  "(history c = NonArray n \<and> appState c = INITIAL \<and> trim (topic c) \<noteq> [] \<longrightarrow>
      (\<exists>s1. awaiting (handleTopicSubmit toLowerCase c (Inr (g, srcs)))
               = Some (s1, GenerateStudyGuide (topic c))
            \<and> appState s1 = GENERATING_GUIDE)
      \<and> appState (final (handleTopicSubmit toLowerCase c (Inr (g, srcs)))) = ERROR
      \<and> error (final (handleTopicSubmit toLowerCase c (Inr (g, srcs)))) = Some EngineMessage)
   \<and> reachable toLowerCase overNumber
   \<and> enabled overNumber (SubmitTopic (Inr (g, srcs)))"
proof (intro conjI impI)
  assume a: "history c = NonArray n \<and> appState c = INITIAL \<and> trim (topic c) \<noteq> []"
  then show "\<exists>s1. awaiting (handleTopicSubmit toLowerCase c (Inr (g, srcs)))
               = Some (s1, GenerateStudyGuide (topic c))
            \<and> appState s1 = GENERATING_GUIDE"
    by (simp add: handleTopicSubmit_def Let_def resetQuizState_def)
  from a show "appState (final (handleTopicSubmit toLowerCase c (Inr (g, srcs)))) = ERROR"
    by (simp add: handleTopicSubmit_def handleTopicSubmit_resume_def Let_def resetQuizState_def)
  from a show "error (final (handleTopicSubmit toLowerCase c (Inr (g, srcs)))) = Some EngineMessage"
    by (simp add: handleTopicSubmit_def handleTopicSubmit_resume_def Let_def resetQuizState_def
        errMessage_def)
next
  let ?m = "\<lparr>current = (initialState [] True)\<lparr>history := NonArray (NNumber (Finite 5))\<rparr>,
             inFlight = []\<rparr>"
  have r: "running toLowerCase ?m"
    by (rule running.start_nonArray) simp
  have "mstep toLowerCase ?m (Act (ChangeTopic (js ''Cells'')))
      = Some \<lparr>current = overNumber, inFlight = []\<rparr>"
    by (simp add: overNumber_def initialState_def returned_def)
  from running.move [OF r this] have "running toLowerCase \<lparr>current = overNumber, inFlight = []\<rparr>" .
  from reachable.intros [OF this] show "reachable toLowerCase overNumber" by simp
next
  show "enabled overNumber (SubmitTopic (Inr (g, srcs)))"
    by (simp add: overNumber_def initialState_def)
qed

theorem C6_successful_generation_witness:
  "appState (final (handleTopicSubmit id overNumber (Inr (js ''g'', [])))) = ERROR
   \<and> error (final (handleTopicSubmit id overNumber (Inr (js ''g'', [])))) = Some EngineMessage"
proof -
  have h: "history overNumber = NonArray (NNumber (Finite 5)) \<and> appState overNumber = INITIAL
      \<and> trim (topic overNumber) \<noteq> []"
    by (simp add: overNumber_def initialState_def trim_examples)
  show ?thesis
    using C6_successful_generation_ends_in_ERROR
      [of overNumber "NNumber (Finite 5)" id "js ''g''" "[]"] h
    by blast
qed

text \<open>
  C7: a failing call should leave the machine in \<open>ERROR\<close> until the user returns to the
  start. Each handler does enter \<open>ERROR\<close> with the message of the thrown error when its
  call fails (\<open>handleTopicSubmit_fails\<close> and the four facts after it), but the machine
  leaves \<open>ERROR\<close> again without any action of the user when another call is in flight: in
  the quiz \<open>overlappingQuiz\<close> the request for the next question fails, giving \<open>ERROR\<close> with
  its message, and the evaluation that the user had submitted meanwhile then settles and
  sets \<open>SHOWING_FEEDBACK\<close>, the error message still being set.
\<close>

theorem C7_settling_call_leaves_ERROR:
  "(case mrun toLowerCase mounted0 overlappingQuiz of
      None \<Rightarrow> False
    | Some m \<Rightarrow>
        running toLowerCase m
        \<and> appState (current m) = ERROR
        \<and> error (current m)
            = Some (Message (js ''Failed to generate a new question. Please try again.''))
        \<and> length (inFlight m) = 1
        \<and> (case mstep toLowerCase m (Settle 0) of
              None \<Rightarrow> False
            | Some m' \<Rightarrow>
                running toLowerCase m'
                \<and> appState (current m') = SHOWING_FEEDBACK
                \<and> error (current m')
                    = Some (Message (js ''Failed to generate a new question. Please try again.''))
                \<and> inFlight m' = []))"
proof -
  have r0: "running toLowerCase mounted0"
    unfolding mounted0_def by (rule running.start)
  obtain m where m: "mrun toLowerCase mounted0 overlappingQuiz = Some m"
    and e: "appState (current m) = ERROR"
      "error (current m) = Some (Message (js ''Failed to generate a new question. Please try again.''))"
      "length (inFlight m) = 1"
    and f: "appState (resume toLowerCase (fst (inFlight m ! 0)) (snd (inFlight m ! 0)) (current m))
        = SHOWING_FEEDBACK"
      "error (resume toLowerCase (fst (inFlight m ! 0)) (snd (inFlight m ! 0)) (current m))
        = Some (Message (js ''Failed to generate a new question. Please try again.''))"
    by (simp add: mounted0_def overlappingQuiz_def initialState_def returned_def
        handleTopicSubmit_def handleTopicSubmit_resume_def handleStartQuiz_def
        handleNextQuestion_def fetchNextQuestion_def fetchNextQuestion_resume_def
        handleAnswerSubmit_def handleAnswerSubmit_resume_def resetQuizState_def
        generateQuizQuestion_def errMessage_def correctFeedback_def feedbackValue_def
        trim_examples quizLength_def js_Nil_iff Let_def)
  have rm: "running toLowerCase m"
    using running_mrun [OF r0 m] .
  obtain m' where m': "mstep toLowerCase m (Settle 0) = Some m'"
    using e(3) by simp
  have rm': "running toLowerCase m'"
    using running.move [OF rm m'] .
  have c': "current m' = resume toLowerCase (fst (inFlight m ! 0)) (snd (inFlight m ! 0)) (current m)"
    and i': "inFlight m' = []"
    using m' e(3) by (auto simp: length_Suc_conv)
  have inner: "running toLowerCase m'
      \<and> appState (current m') = SHOWING_FEEDBACK
      \<and> error (current m')
          = Some (Message (js ''Failed to generate a new question. Please try again.''))
      \<and> inFlight m' = []"
    using rm' f c' i' by simp
  show ?thesis
    unfolding m option.case m' using rm e inner by blast
qed

text \<open>
  C8: missing or corrupt persisted data should be treated as an empty history, without a
  crash. When reading throws, when nothing is stored or when the stored text cannot be
  parsed, the code does so (\<open>mount_nothing_loaded\<close> with \<open>loadEffect_nothing\<close> and
  \<open>loadEffect_unparseable\<close>). But a stored text that parses is installed as the history
  without any check of its shape: for the stored text \<open>null\<close> the next render reads
  \<open>history.length\<close> of \<open>null\<close> and the error takes the component down, and a parsed value
  that is not an array and whose view renders stays as the history instead of the empty
  list.
\<close>

theorem C8_stored_null_crashes:
  "(JSON_parse (js ''null'') = Inr JNull \<longrightarrow>
      mount False w1 w2 JSON_parse JSON_stringify d (Some (js ''null''))
        = Crashed (saveEffect w1 JSON_stringify (Items []) (Some (js ''null''))))
   \<and> (t \<noteq> [] \<and> JSON_parse t = Inr v \<and> asHistory v = Some h
        \<and> historyRenders h = RenderThrows \<longrightarrow>
      mount False w1 w2 JSON_parse JSON_stringify d (Some t)
        = Crashed (saveEffect w1 JSON_stringify (Items []) (Some t)))
   \<and> (t \<noteq> [] \<and> JSON_parse t = Inr v \<and> asHistory v = Some (NonArray n)
        \<and> historyRenders (NonArray n) = Renders \<longrightarrow>
      mount False w1 w2 JSON_parse JSON_stringify d (Some t)
        = Mounted ((initialState [] d)\<lparr>history := NonArray n\<rparr>)
            (saveEffect w2 JSON_stringify (NonArray n)
               (saveEffect w1 JSON_stringify (Items []) (Some t))))"
proof (intro conjI impI)
  assume "JSON_parse (js ''null'') = Inr JNull"
  then have "loadEffect False JSON_parse (Some (js ''null'')) = Some JNull"
    by (simp add: loadEffect_parsed js_Nil_iff)
  then show "mount False w1 w2 JSON_parse JSON_stringify d (Some (js ''null''))
        = Crashed (saveEffect w1 JSON_stringify (Items []) (Some (js ''null'')))"
    by (rule mount_null)
next
  assume a: "t \<noteq> [] \<and> JSON_parse t = Inr v \<and> asHistory v = Some h
        \<and> historyRenders h = RenderThrows"
  then have "loadEffect False JSON_parse (Some t) = Some v"
    by (simp add: loadEffect_parsed)
  with a show "mount False w1 w2 JSON_parse JSON_stringify d (Some t)
        = Crashed (saveEffect w1 JSON_stringify (Items []) (Some t))"
    by (simp add: mount_def Let_def)
next
  assume a: "t \<noteq> [] \<and> JSON_parse t = Inr v \<and> asHistory v = Some (NonArray n)
        \<and> historyRenders (NonArray n) = Renders"
  then have "loadEffect False JSON_parse (Some t) = Some v"
    by (simp add: loadEffect_parsed)
  from mount_non_array [OF this] a
  show "mount False w1 w2 JSON_parse JSON_stringify d (Some t)
        = Mounted ((initialState [] d)\<lparr>history := NonArray n\<rparr>)
            (saveEffect w2 JSON_stringify (NonArray n)
               (saveEffect w1 JSON_stringify (Items []) (Some t)))"
    by blast
qed

theorem C8_stored_null_witness:
  "mount False False False (parseOnly (js ''null'') JNull) (\<lambda>h. js ''written'') True
       (Some (js ''null''))
     = Crashed (Some (js ''written''))
   \<and> mount False False False (parseOnly (js ''text'') (JString (js ''x''))) (\<lambda>h. js ''written'') True
       (Some (js ''text''))
     = Crashed (Some (js ''written''))
   \<and> mount False False False (parseOnly (js ''5'') (JNumber (Finite 5))) (\<lambda>h. js ''written'') True
       (Some (js ''5''))
     = Mounted ((initialState [] True)\<lparr>history := NonArray (NNumber (Finite 5))\<rparr>)
         (Some (js ''written''))"
proof -
  let ?S = "\<lambda>h::history_value. js ''written''"
  have p: "parseOnly (js ''null'') JNull (js ''null'') = Inr JNull"
    by (simp add: parseOnly_def)
  have s: "js ''text'' \<noteq> [] \<and> parseOnly (js ''text'') (JString (js ''x'')) (js ''text'') = Inr (JString (js ''x''))
      \<and> asHistory (JString (js ''x'')) = Some (NonArray (NString (js ''x'')))
      \<and> historyRenders (NonArray (NString (js ''x''))) = RenderThrows"
    by (simp add: parseOnly_def js_Nil_iff)
  have q: "js ''5'' \<noteq> [] \<and> parseOnly (js ''5'') (JNumber (Finite 5)) (js ''5'') = Inr (JNumber (Finite 5))
      \<and> asHistory (JNumber (Finite 5)) = Some (NonArray (NNumber (Finite 5)))
      \<and> historyRenders (NonArray (NNumber (Finite 5))) = Renders"
    by (simp add: parseOnly_def js_Nil_iff)
  have a: "mount False False False (parseOnly (js ''null'') JNull) ?S True (Some (js ''null''))
      = Crashed (saveEffect False ?S (Items []) (Some (js ''null'')))"
    using C8_stored_null_crashes
      [of "parseOnly (js ''null'') JNull" False False ?S True "js ''5''" JNull "NonArray NNull" NNull] p
    by blast
  have b: "mount False False False (parseOnly (js ''text'') (JString (js ''x''))) ?S True
        (Some (js ''text''))
      = Crashed (saveEffect False ?S (Items []) (Some (js ''text'')))"
    using C8_stored_null_crashes
      [of "parseOnly (js ''text'') (JString (js ''x''))" False False ?S True "js ''text''"
         "JString (js ''x'')" "NonArray (NString (js ''x''))" "NString (js ''x'')"] s
    by blast
  have c: "mount False False False (parseOnly (js ''5'') (JNumber (Finite 5))) ?S True
        (Some (js ''5''))
      = Mounted ((initialState [] True)\<lparr>history := NonArray (NNumber (Finite 5))\<rparr>)
          (saveEffect False ?S (NonArray (NNumber (Finite 5)))
             (saveEffect False ?S (Items []) (Some (js ''5''))))"
    using C8_stored_null_crashes
      [of "parseOnly (js ''5'') (JNumber (Finite 5))" False False ?S True "js ''5''"
         "JNumber (Finite 5)" "NonArray (NNumber (Finite 5))" "NNumber (Finite 5)"] q
    by blast
  from a b c show ?thesis by (simp add: saveEffect_def)
qed

text \<open>
  C9: selecting a history entry resets the transient state (key points, summary, quiz
  data, error), loads the topic, the guide and the sources stored in the entry, and puts
  the machine in \<open>STUDYING\<close>, without a call to the Content Service; the history and the dark
  mode are kept.
\<close>

theorem C9_select_history_item:
  assumes "i < length (historyItems (history s))"
  shows "dispatch toLowerCase s (SelectHistoryItem i) =
     \<lparr>awaiting = None,
      final = \<lparr>appState = STUDYING, error = None,
               topic = HistoryItem.topic (historyItems (history s) ! i),
               studyGuide = guide (historyItems (history s) ! i),
               sources = HistoryItem.sources (historyItems (history s) ! i),
               keyPoints = [], summary = [], questionsAsked = [], currentQuestion = [],
               userAnswer = [], feedback = JNull, score = 0,
               history = history s, darkMode = darkMode s\<rparr>\<rparr>"
  using assms
  by (simp add: returned_def handleSelectHistoryItem_def resetAllState_def resetQuizState_def)

theorem C9_select_history_item_witness:
  "dispatch id
     ((initialState [\<lparr>HistoryItem.topic = js ''Cells'', guide = js ''g'',
                       HistoryItem.sources = [\<lparr>uri = Some (js ''u''), title = Some (js ''t'')\<rparr>]\<rparr>] False)
        \<lparr>appState := SHOWING_HISTORY, error := Some (Message (js ''old'')), keyPoints := js ''k'',
         score := 3\<rparr>)
     (SelectHistoryItem 0)
   = \<lparr>awaiting = None,
      final = \<lparr>appState = STUDYING, error = None, topic = js ''Cells'', studyGuide = js ''g'',
               sources = [\<lparr>uri = Some (js ''u''), title = Some (js ''t'')\<rparr>],
               keyPoints = [], summary = [], questionsAsked = [], currentQuestion = [],
               userAnswer = [], feedback = JNull, score = 0,
               history = Items [\<lparr>HistoryItem.topic = js ''Cells'', guide = js ''g'',
                            HistoryItem.sources = [\<lparr>uri = Some (js ''u''), title = Some (js ''t'')\<rparr>]\<rparr>],
               darkMode = False\<rparr>\<rparr>"
  using C9_select_history_item
    [of 0 "(initialState [\<lparr>HistoryItem.topic = js ''Cells'', guide = js ''g'',
                       HistoryItem.sources = [\<lparr>uri = Some (js ''u''), title = Some (js ''t'')\<rparr>]\<rparr>] False)
        \<lparr>appState := SHOWING_HISTORY, error := Some (Message (js ''old'')), keyPoints := js ''k'',
         score := 3\<rparr>" id]
  by (simp add: initialState_def historyItems_def)

text \<open>
  C10: when the call of \<open>evaluateAnswer\<close> fails, \<open>handleAnswerSubmit\<close> ends in the state it
  started from with only the error message and the \<open>ERROR\<close> state set: the score, the
  questions asked, the current question, the feedback, the study guide and the history are
  the ones before the submission.
\<close>

theorem C10_failed_evaluation_changes_only_error:
  assumes "trim (userAnswer c) \<noteq> []"
  shows "final (handleAnswerSubmit c (Inl err)) = c\<lparr>error := Some (errMessage err), appState := ERROR\<rparr>"
  using assms by (simp add: handleAnswerSubmit_def handleAnswerSubmit_resume_def Let_def)

theorem C10_failed_evaluation_witness:
  "final (handleAnswerSubmit
            ((initialState [] True)\<lparr>appState := ASKING_QUESTION, studyGuide := js ''g'',
               questionsAsked := [js ''q''], currentQuestion := js ''q'', userAnswer := js ''a'',
               score := 0\<rparr>)
            (evaluateAnswer (\<lambda>t. Inl (Error (js ''SyntaxError''))) (Some (js ''not json''))))
   = (initialState [] True)\<lparr>appState := ERROR, studyGuide := js ''g'',
        questionsAsked := [js ''q''], currentQuestion := js ''q'', userAnswer := js ''a'', score := 0,
        error := Some (Message (js ''Failed to evaluate the answer. Please try again.''))\<rparr>"
proof -
  let ?c = "(initialState [] True)\<lparr>appState := ASKING_QUESTION, studyGuide := js ''g'',
               questionsAsked := [js ''q''], currentQuestion := js ''q'', userAnswer := js ''a'',
               score := 0\<rparr>"
  have h: "trim (userAnswer ?c) \<noteq> []"
    by (simp add: trim_examples)
  show ?thesis
    using C10_failed_evaluation_changes_only_error
      [OF h, of "Error (js ''Failed to evaluate the answer. Please try again.'')"]
    by (simp add: evaluateAnswer_def errMessage_def initialState_def)
qed

end
